theory Spec2Isabelle
  imports Main "HOL-Library.Word"
begin

text \<open>
  A model of the handle adapter of \<^verbatim>\<open>src/Easy.cc\<close>: its callback trampolines, \<^verbatim>\<open>SetOpt\<close> and
  \<^verbatim>\<open>GetInfo\<close>. The host runtime and the transfer engine are parameters. The code is read as
  built against an engine for which every version guard \<^verbatim>\<open>NODE_LIBCURL_VER_GE\<close> holds, with
  assertions enabled. Callables are taken not to call back into the handle. The socket
  monitor, \<^verbatim>\<open>send\<close>, \<^verbatim>\<open>recv\<close> and \<^verbatim>\<open>perform\<close> are not modelled.
\<close>

section \<open>Host values\<close>

text \<open>
  The values of the scripting runtime that \<^verbatim>\<open>Easy.cc\<close> inspects. A number is either an
  integer or an opaque non-integral double; functions are known by an identity only.
\<close>

datatype js_num = Whole int | Frac nat

datatype js_value =
    JUndefined
  | JNull
  | JBool bool
  | JNumber js_num
  | JString string
  | JBuffer string
  | JDate int
  | JArray "js_value list"
  | JObject "(string \<times> js_value) list"
  | JFunction nat
  | JError string
  | JTypeError string

fun IsInt32 :: "js_value \<Rightarrow> bool" where
  "IsInt32 (JNumber (Whole i)) = (- 2147483648 \<le> i \<and> i \<le> 2147483647)"
| "IsInt32 _ = False"

fun IsString :: "js_value \<Rightarrow> bool" where
  "IsString (JString _) = True"
| "IsString _ = False"

fun IsNull :: "js_value \<Rightarrow> bool" where
  "IsNull JNull = True"
| "IsNull _ = False"

fun IsUndefined :: "js_value \<Rightarrow> bool" where
  "IsUndefined JUndefined = True"
| "IsUndefined _ = False"

fun IsArray :: "js_value \<Rightarrow> bool" where
  "IsArray (JArray _) = True"
| "IsArray _ = False"

fun IsFalse :: "js_value \<Rightarrow> bool" where
  "IsFalse (JBool b) = (\<not> b)"
| "IsFalse _ = False"

fun IsFunction :: "js_value \<Rightarrow> bool" where
  "IsFunction (JFunction _) = True"
| "IsFunction _ = False"

fun IsObject :: "js_value \<Rightarrow> bool" where
  "IsObject (JObject _) = True"
| "IsObject (JArray _) = True"
| "IsObject (JFunction _) = True"
| "IsObject (JBuffer _) = True"
| "IsObject (JDate _) = True"
| "IsObject (JError _) = True"
| "IsObject (JTypeError _) = True"
| "IsObject _ = False"

text \<open>\<^verbatim>\<open>Nan::To<int32_t>(v).FromJust()\<close> on a value that passed \<^verbatim>\<open>IsInt32\<close>.\<close>

fun ToInt32 :: "js_value \<Rightarrow> int" where
  "ToInt32 (JNumber (Whole i)) = i"
| "ToInt32 _ = 0"

text \<open>
  What a call of a host callable gives back: an exception caught by the surrounding
  \<^verbatim>\<open>Nan::TryCatch\<close>, an empty \<^verbatim>\<open>MaybeLocal\<close> with nothing caught, or a value.
\<close>

datatype call_result = Threw js_value | ReturnedEmpty | Returned js_value

type_synonym callable = nat

text \<open>
  The host runtime as the adapter uses it: \<open>call f argv\<close> is \<^verbatim>\<open>Nan::Call\<close> on the callable
  \<open>f\<close>; the coercions are those of \<^verbatim>\<open>Nan::To<uint32_t>\<close>, \<^verbatim>\<open>Nan::To<int32_t>\<close>,
  \<^verbatim>\<open>Nan::To<double>\<close> followed by the cast to \<^verbatim>\<open>curl_off_t\<close>, and \<^verbatim>\<open>Nan::Utf8String\<close> on
  values they are not fixed for below.
\<close>

record host =
  call :: "callable \<Rightarrow> js_value list \<Rightarrow> call_result"
  coerce_uint32 :: "js_value \<Rightarrow> 32 word"
  coerce_int32 :: "js_value \<Rightarrow> int"
  coerce_off_t :: "js_value \<Rightarrow> int"
  coerce_string :: "js_value \<Rightarrow> string"

fun ToUint32 :: "host \<Rightarrow> js_value \<Rightarrow> 32 word" where
  "ToUint32 H (JNumber (Whole i)) = word_of_int i"
| "ToUint32 H v = coerce_uint32 H v"

fun Utf8String :: "host \<Rightarrow> js_value \<Rightarrow> string" where
  "Utf8String H (JString s) = s"
| "Utf8String H v = coerce_string H v"

text \<open>
  The decimal text of a natural number: the name of an array index as a property, and what
  \<^verbatim>\<open>std::to_string\<close> prints.
\<close>

definition digit_char :: "nat \<Rightarrow> char" where
  "digit_char d = ''0123456789'' ! d"

function decimal :: "nat \<Rightarrow> string" where
  "decimal n = (if n < 10 then [digit_char n] else decimal (n div 10) @ [digit_char (n mod 10)])"
  by pat_completeness auto
termination
  by (relation "measure id") auto

declare decimal.simps [simp del]

text \<open>A \<^verbatim>\<open>const char*\<close> read as a C string stops at the first NUL byte.\<close>

definition c_str :: "string \<Rightarrow> string" where
  "c_str s = takeWhile (\<lambda>c. c \<noteq> CHR 0x00) s"

section \<open>The engine's identifiers\<close>

text \<open>
  The option identifiers of the engine's header that \<^verbatim>\<open>Easy.cc\<close> names, as an enumeration;
  every other identifier is \<open>CURLOPT_OTHER\<close> with its number.
\<close>

datatype CURLoption =
    CURLOPT_PRIVATE | CURLOPT_READDATA | CURLOPT_SEEKDATA | CURLOPT_WRITEDATA
  | CURLOPT_HTTPPOST | CURLOPT_POSTFIELDS
  | CURLOPT_INFILESIZE_LARGE | CURLOPT_MAXFILESIZE_LARGE | CURLOPT_MAX_RECV_SPEED_LARGE
  | CURLOPT_MAX_SEND_SPEED_LARGE | CURLOPT_POSTFIELDSIZE_LARGE | CURLOPT_RESUME_FROM_LARGE
  | CURLOPT_CHUNK_BGN_FUNCTION | CURLOPT_CHUNK_END_FUNCTION | CURLOPT_CHUNK_DATA
  | CURLOPT_DEBUGFUNCTION | CURLOPT_DEBUGDATA
  | CURLOPT_FNMATCH_FUNCTION | CURLOPT_FNMATCH_DATA
  | CURLOPT_PROGRESSFUNCTION | CURLOPT_PROGRESSDATA
  | CURLOPT_TRAILERFUNCTION | CURLOPT_TRAILERDATA
  | CURLOPT_XFERINFOFUNCTION
  | CURLOPT_WRITEFUNCTION
  | CURLOPT_OTHER nat

text \<open>In the engine's header \<^verbatim>\<open>CURLOPT_XFERINFODATA\<close> is another name of \<^verbatim>\<open>CURLOPT_PROGRESSDATA\<close>.\<close>

abbreviation CURLOPT_XFERINFODATA :: CURLoption where
  "CURLOPT_XFERINFODATA \<equiv> CURLOPT_PROGRESSDATA"

text \<open>Status codes are the engine's numbers; the two the adapter names itself:\<close>

type_synonym CURLcode = nat

definition CURLE_OK :: CURLcode where
  "CURLE_OK = 0"

definition CURLE_UNKNOWN_OPTION :: CURLcode where
  "CURLE_UNKNOWN_OPTION = 48"

text \<open>The return values of the engine's header for the callback slots.\<close>

definition CURL_CHUNK_BGN_FUNC_FAIL :: int where
  "CURL_CHUNK_BGN_FUNC_FAIL = 1"

definition CURL_CHUNK_END_FUNC_FAIL :: int where
  "CURL_CHUNK_END_FUNC_FAIL = 1"

definition CURL_FNMATCHFUNC_FAIL :: int where
  "CURL_FNMATCHFUNC_FAIL = 2"

definition CURL_TRAILERFUNC_OK :: int where
  "CURL_TRAILERFUNC_OK = 0"

definition CURL_TRAILERFUNC_ABORT :: int where
  "CURL_TRAILERFUNC_ABORT = 1"

text \<open>The adapter's fixed native functions that it hands to the engine.\<close>

datatype trampoline =
    TrWriteFunction | TrCbChunkBgn | TrCbChunkEnd | TrCbDebug | TrCbFnMatch
  | TrCbProgress | TrCbTrailer | TrCbXferinfo

text \<open>One field of a multipart body, as \<^verbatim>\<open>CurlHttpPost::AddFile\<close> and \<^verbatim>\<open>AddField\<close> receive it.\<close>

datatype post_part =
    PostFile string nat string "string option" "string option"
  | PostField string nat string nat

text \<open>
  The third argument of \<^verbatim>\<open>curl_easy_setopt\<close>. A \<^verbatim>\<open>curl_slist*\<close> is the list of its nodes' strings,
  the null pointer being the empty list.
\<close>

datatype setopt_arg =
    ArgNull
  | ArgThis
  | ArgSList "string list"
  | ArgStr string
  | ArgLong int
  | ArgOffT int
  | ArgPost "post_part list"
  | ArgFn trampoline

type_synonym curl_call = "CURLoption \<times> setopt_arg \<times> CURLcode"

section \<open>The handle\<close>

text \<open>
  \<open>ch\<close> is the engine handle, seen as the option-set calls made on it so far with the
  status each returned. \<open>toFree_*\<close> are the three vectors of \<^verbatim>\<open>Easy::ToFree\<close>. \<open>slistHeap\<close> holds the
  lists built by \<^verbatim>\<open>curl_slist_append\<close> for this handle and not yet given to
  \<^verbatim>\<open>curl_slist_free_all\<close>. \<open>onData\<close> is the property of that name of the handle's host object.
\<close>

record Easy =
  ch :: "curl_call list"
  isOpen :: bool
  isInsideMultiHandle :: bool
  isCbProgressAlreadyAborted :: bool
  callbackError :: "js_value option"
  callbacks :: "CURLoption \<rightharpoonup> callable"
  toFree_str :: "string list"
  toFree_slist :: "string list list"
  toFree_post :: "post_part list list"
  slistHeap :: "string list list"
  readDataFileDescriptor :: int
  onData :: js_value

text \<open>
  What a trampoline leaves behind: the value returned to the engine, the exception left
  pending for the host caller (if any), the host calls it made, and the handle.
\<close>

record 'r cb_result =
  ret :: 'r
  thrown :: "js_value option"
  hostCalls :: "(callable \<times> js_value list) list"
  easy :: Easy

text \<open>A failed \<^verbatim>\<open>assert\<close> or \<^verbatim>\<open>ToLocalChecked\<close> ends the process; the message says which.\<close>

type_synonym 'a or_fatal = "string + 'a"

section \<open>Callback trampolines\<close>

text \<open>
  The block every trampoline with a \<^verbatim>\<open>Nan::TryCatch\<close> repeats for an error \<open>e\<close>: store it in
  \<open>callbackError\<close> when the handle is inside a multi handle, rethrow it otherwise. The result
  is the pending exception and the handle.
\<close>

definition deferOrReThrow :: "Easy \<Rightarrow> js_value \<Rightarrow> js_value option \<times> Easy" where
  "deferOrReThrow obj e =
     (if isInsideMultiHandle obj then (None, obj\<lparr>callbackError := Some e\<rparr>)
      else (Some e, obj))"

text \<open>
  The common body of the integer-returning trampolines after the callable \<open>f\<close> was found:
  call it, route an exception, check the type of the returned value. \<open>fail\<close> is the initial
  \<^verbatim>\<open>returnValue\<close>, \<open>msg\<close> the text of the type error.
\<close>

definition callInt32 ::
  "host \<Rightarrow> Easy \<Rightarrow> callable \<Rightarrow> js_value list \<Rightarrow> int \<Rightarrow> string \<Rightarrow> bool \<times> int cb_result" where
  "callInt32 H obj f argv fail msg =
     (case call H f argv of
        Threw e \<Rightarrow>
          (let (t, obj') = deferOrReThrow obj e
           in (True, \<lparr>ret = fail, thrown = t, hostCalls = [(f, argv)], easy = obj'\<rparr>))
      | ReturnedEmpty \<Rightarrow>
          (let (t, obj') = deferOrReThrow obj (JTypeError msg)
           in (False, \<lparr>ret = fail, thrown = t, hostCalls = [(f, argv)], easy = obj'\<rparr>))
      | Returned v \<Rightarrow>
          (if \<not> IsInt32 v then
             (let (t, obj') = deferOrReThrow obj (JTypeError msg)
              in (False, \<lparr>ret = fail, thrown = t, hostCalls = [(f, argv)], easy = obj'\<rparr>))
           else (False, \<lparr>ret = ToInt32 v, thrown = None, hostCalls = [(f, argv)], easy = obj\<rparr>)))"

subsection \<open>Chunk, debug and filename-match slots\<close>

record curl_fileinfo =
  fi_filename :: string
  fi_filetype :: int
  fi_time :: int
  fi_perm :: nat
  fi_uid :: int
  fi_gid :: int
  fi_size :: int
  fi_hardlinks :: int
  fi_strings_time :: "string option"
  fi_strings_perm :: "string option"
  fi_strings_user :: "string option"
  fi_strings_group :: "string option"
  fi_strings_target :: "string option"

text \<open>
  The file information as the host object of \<^verbatim>\<open>CreateV8ObjectFromCurlFileInfo\<close>. The source
  casts \<open>size\<close> to \<^verbatim>\<open>double\<close> and \<open>hardlinks\<close> to \<^verbatim>\<open>int32_t\<close>; the model keeps both numbers exact.
\<close>

definition NullValueIfInvalidString :: "string option \<Rightarrow> js_value" where
  "NullValueIfInvalidString str =
     (case str of None \<Rightarrow> JNull | Some s \<Rightarrow> (if s \<noteq> [] then JString s else JNull))"

definition CreateV8ObjectFromCurlFileInfo :: "curl_fileinfo \<Rightarrow> js_value" where
  "CreateV8ObjectFromCurlFileInfo fileInfo =
     JObject
       [(''fileName'', JString (fi_filename fileInfo)),
        (''fileType'', JNumber (Whole (fi_filetype fileInfo))),
        (''time'', (if fi_time fileInfo \<noteq> 0 then JDate (fi_time fileInfo * 1000) else JNull)),
        (''perm'', JNumber (Whole (int (fi_perm fileInfo)))),
        (''uid'', JNumber (Whole (fi_uid fileInfo))),
        (''gid'', JNumber (Whole (fi_gid fileInfo))),
        (''size'', JNumber (Whole (fi_size fileInfo))),
        (''hardLinks'', JNumber (Whole (fi_hardlinks fileInfo))),
        (''strings'', JObject
           [(''time'', NullValueIfInvalidString (fi_strings_time fileInfo)),
            (''perm'', NullValueIfInvalidString (fi_strings_perm fileInfo)),
            (''user'', NullValueIfInvalidString (fi_strings_user fileInfo)),
            (''group'', NullValueIfInvalidString (fi_strings_group fileInfo)),
            (''target'', NullValueIfInvalidString (fi_strings_target fileInfo))])]"

definition CbChunkBgn :: "host \<Rightarrow> Easy \<Rightarrow> curl_fileinfo \<Rightarrow> int \<Rightarrow> int cb_result or_fatal" where
  "CbChunkBgn H obj transferInfo remains =
     (case callbacks obj CURLOPT_CHUNK_BGN_FUNCTION of
        None \<Rightarrow> Inl ''CHUNK_BGN callback not set.''
      | Some f \<Rightarrow>
          Inr (snd (callInt32 H obj f
            [CreateV8ObjectFromCurlFileInfo transferInfo, JNumber (Whole remains)]
            CURL_CHUNK_BGN_FUNC_FAIL
            ''Return value from the CHUNK_BGN callback must be an integer.'')))"

definition CbChunkEnd :: "host \<Rightarrow> Easy \<Rightarrow> int cb_result or_fatal" where
  "CbChunkEnd H obj =
     (case callbacks obj CURLOPT_CHUNK_END_FUNCTION of
        None \<Rightarrow> Inl ''CHUNK_END callback not set.''
      | Some f \<Rightarrow>
          Inr (snd (callInt32 H obj f [] CURL_CHUNK_END_FUNC_FAIL
            ''Return value from the CHUNK_END callback must be an integer.'')))"

definition CbDebug :: "host \<Rightarrow> Easy \<Rightarrow> int \<Rightarrow> string \<Rightarrow> 64 word \<Rightarrow> int cb_result or_fatal" where
  "CbDebug H obj type data sz =
     (case callbacks obj CURLOPT_DEBUGFUNCTION of
        None \<Rightarrow> Inl ''DEBUG callback not set.''
      | Some f \<Rightarrow>
          Inr (snd (callInt32 H obj f
            [JNumber (Whole type), JBuffer (take (unat (ucast sz :: 32 word)) data)]
            1
            ''Return value from the DEBUG callback must be an integer.'')))"

definition CbFnMatch :: "host \<Rightarrow> Easy \<Rightarrow> string \<Rightarrow> string \<Rightarrow> int cb_result or_fatal" where
  "CbFnMatch H obj pattern str =
     (case callbacks obj CURLOPT_FNMATCH_FUNCTION of
        None \<Rightarrow> Inl ''FNMATCH callback not set.''
      | Some f \<Rightarrow>
          Inr (snd (callInt32 H obj f [JString pattern, JString str]
            CURL_FNMATCHFUNC_FAIL
            ''Return value from the FNMATCH callback must be an integer.'')))"

subsection \<open>Progress slots\<close>

text \<open>
  \<^verbatim>\<open>CbXferinfo\<close> casts its 64-bit counters to \<^verbatim>\<open>double\<close> before handing them to the callable; the
  model hands them over exact, which is the same number up to \<open>2^53\<close>.

  The end of \<^verbatim>\<open>CbProgress\<close> and \<^verbatim>\<open>CbXferinfo\<close>: the block for a caught exception returns at
  once (\<open>early\<close>); every other path reaches \<^verbatim>\<open>if (returnValue)\<close>, the test \<open>signalsAbort\<close>,
  and sets the flag there.
\<close>

definition signalsAbort :: "int \<Rightarrow> bool" where
  "signalsAbort returnValue = (returnValue \<noteq> 0)"

definition markAborted :: "bool \<times> int cb_result \<Rightarrow> int cb_result" where
  "markAborted er =
     (case er of (early, r) \<Rightarrow>
        (if early then r
         else if signalsAbort (ret r)
           then r\<lparr>easy := (easy r)\<lparr>isCbProgressAlreadyAborted := True\<rparr>\<rparr>
         else r))"

definition CbProgress ::
  "host \<Rightarrow> Easy \<Rightarrow> js_num \<Rightarrow> js_num \<Rightarrow> js_num \<Rightarrow> js_num \<Rightarrow> int cb_result or_fatal" where
  "CbProgress H obj dltotal dlnow ultotal ulnow =
     (if isCbProgressAlreadyAborted obj then
        Inr \<lparr>ret = 1, thrown = None, hostCalls = [], easy = obj\<rparr>
      else
        (case callbacks obj CURLOPT_PROGRESSFUNCTION of
           None \<Rightarrow> Inl ''PROGRESS callback not set.''
         | Some f \<Rightarrow>
             Inr (markAborted (callInt32 H obj f
               [JNumber dltotal, JNumber dlnow, JNumber ultotal, JNumber ulnow]
               1
               ''Return value from the PROGRESS callback must be an integer.''))))"

definition CbXferinfo ::
  "host \<Rightarrow> Easy \<Rightarrow> int \<Rightarrow> int \<Rightarrow> int \<Rightarrow> int \<Rightarrow> int cb_result or_fatal" where
  "CbXferinfo H obj dltotal dlnow ultotal ulnow =
     (if isCbProgressAlreadyAborted obj then
        Inr \<lparr>ret = 1, thrown = None, hostCalls = [], easy = obj\<rparr>
      else
        (case callbacks obj CURLOPT_XFERINFOFUNCTION of
           None \<Rightarrow> Inl ''XFERINFO callback not set.''
         | Some f \<Rightarrow>
             Inr (markAborted (callInt32 H obj f
               [JNumber (Whole dltotal), JNumber (Whole dlnow),
                JNumber (Whole ultotal), JNumber (Whole ulnow)]
               1
               ''Return value from the XFERINFO callback must be an integer.''))))"

subsection \<open>Trailer slot\<close>

text \<open>
  The loop over the returned array: each string is appended to the engine's header list; the
  first element that is not a string stops it (\<open>Inl\<close>), with the list as it is by then.
\<close>

fun trailerRows :: "js_value list \<Rightarrow> string list \<Rightarrow> string list + string list" where
  "trailerRows [] headerList = Inr headerList"
| "trailerRows (JString s # rows) headerList = trailerRows rows (headerList @ [c_str s])"
| "trailerRows (v # rows) headerList = Inl headerList"

definition trailerTypeError :: js_value where
  "trailerTypeError =
     JTypeError ''Return value from the Trailer callback must be an array of strings or false.''"

definition CbTrailer ::
  "host \<Rightarrow> Easy \<Rightarrow> string list \<Rightarrow> (int cb_result \<times> string list) or_fatal" where
  "CbTrailer H obj headerList =
     (case callbacks obj CURLOPT_TRAILERFUNCTION of
        None \<Rightarrow> Inl ''Trailer callback not set.''
      | Some f \<Rightarrow>
          (let invalid =
             (let (t, obj') = deferOrReThrow obj trailerTypeError
              in \<lparr>ret = CURL_TRAILERFUNC_ABORT, thrown = t, hostCalls = [(f, [])], easy = obj'\<rparr>)
           in case call H f [] of
             Threw e \<Rightarrow>
               (let (t, obj') = deferOrReThrow obj e
                in Inr (\<lparr>ret = CURL_TRAILERFUNC_ABORT, thrown = t, hostCalls = [(f, [])],
                          easy = obj'\<rparr>, headerList))
           | ReturnedEmpty \<Rightarrow> Inr (invalid, headerList)
           | Returned v \<Rightarrow>
               (if \<not> IsArray v \<and> \<not> IsFalse v then Inr (invalid, headerList)
                else (case v of
                   JArray rows \<Rightarrow>
                     (case trailerRows rows headerList of
                        Inl hl \<Rightarrow> Inr (invalid, hl)
                      | Inr hl \<Rightarrow>
                          Inr (\<lparr>ret = CURL_TRAILERFUNC_OK, thrown = None, hostCalls = [(f, [])],
                                 easy = obj\<rparr>, hl))
                 | _ \<Rightarrow>
                     Inr (\<lparr>ret = CURL_TRAILERFUNC_ABORT, thrown = None, hostCalls = [(f, [])],
                            easy = obj\<rparr>, headerList)))))"

subsection \<open>Data-received slot\<close>

text \<open>
  \<^verbatim>\<open>OnData\<close> has no \<^verbatim>\<open>Nan::TryCatch\<close>: an exception of the callable stays pending whatever
  the handle's owner is. With no registered callback the \<open>onData\<close> property is called as a
  function: \<^verbatim>\<open>Nan::To<v8::Object>\<close> has no result for \<open>null\<close>, and calling an object that is not a
  function raises the runtime's type error, whose message is the runtime's own; \<open>notCallable\<close>
  stands for it.
\<close>

definition notCallable :: js_value where
  "notCallable = JTypeError ''onData is not a function''"

definition OnData ::
  "host \<Rightarrow> Easy \<Rightarrow> string \<Rightarrow> 64 word \<Rightarrow> 64 word \<Rightarrow> (64 word) cb_result or_fatal" where
  "OnData H obj data sz nmemb =
     (let n = sz * nmemb;
          it = callbacks obj CURLOPT_WRITEFUNCTION;
          cbOnData = onData obj;
          hasWriteCallback = (it \<noteq> None)
      in if \<not> hasWriteCallback \<and> IsUndefined cbOnData then
           Inr \<lparr>ret = n, thrown = None, hostCalls = [], easy = obj\<rparr>
         else
           (let argv = [JBuffer (take (unat (ucast n :: 32 word)) data),
                        JNumber (Whole (uint (ucast sz :: 32 word))),
                        JNumber (Whole (uint (ucast nmemb :: 32 word)))];
                finish = (\<lambda>f. case call H f argv of
                    Threw e \<Rightarrow> \<lparr>ret = 0, thrown = Some e, hostCalls = [(f, argv)], easy = obj\<rparr>
                  | ReturnedEmpty \<Rightarrow>
                      \<lparr>ret = 0, thrown = None, hostCalls = [(f, argv)], easy = obj\<rparr>
                  | Returned v \<Rightarrow>
                      \<lparr>ret = ucast (ToUint32 H v), thrown = None, hostCalls = [(f, argv)],
                        easy = obj\<rparr>)
            in case it of
                 Some f \<Rightarrow> Inr (finish f)
               | None \<Rightarrow>
                   (case cbOnData of
                      JFunction f \<Rightarrow> Inr (finish f)
                    | JNull \<Rightarrow> Inl ''ToLocalChecked: empty MaybeLocal''
                    | _ \<Rightarrow> Inr \<lparr>ret = 0, thrown = Some notCallable, hostCalls = [],
                                 easy = obj\<rparr>)))"

section \<open>The engine and the constant tables\<close>

datatype option_table =
    curlOptionNotImplemented | curlOptionSpecific | curlOptionLinkedList
  | curlOptionString | curlOptionInteger | curlOptionFunction

datatype CURLINFO =
    CURLINFO_FILETIME_T
  | CURLINFO_APPCONNECT_TIME_T | CURLINFO_CONNECT_TIME_T | CURLINFO_NAMELOOKUP_TIME_T
  | CURLINFO_PRETRANSFER_TIME_T | CURLINFO_REDIRECT_TIME_T | CURLINFO_STARTTRANSFER_TIME_T
  | CURLINFO_TOTAL_TIME_T
  | CURLINFO_CONTENT_LENGTH_DOWNLOAD_T | CURLINFO_CONTENT_LENGTH_UPLOAD_T
  | CURLINFO_SIZE_DOWNLOAD_T | CURLINFO_SIZE_UPLOAD_T
  | CURLINFO_SPEED_DOWNLOAD_T | CURLINFO_SPEED_UPLOAD_T
  | CURLINFO_OTHER nat

datatype info_table =
    curlInfoNotImplemented | curlInfoString | curlInfoDouble | curlInfoInteger
  | curlInfoSocket | curlInfoLinkedList

text \<open>
  What \<^verbatim>\<open>Easy.cc\<close> calls and does not define. \<open>optionIn t v\<close> and \<open>infoIn t v\<close> are
  \<^verbatim>\<open>IsInsideCurlConstantStruct\<close> on the table \<open>t\<close> (\<open>None\<close> for its result 0). \<open>curl_easy_setopt\<close>
  gives the status of an option-set call on a handle with the given history. \<open>formadd\<close> is the
  status of \<^verbatim>\<open>CurlHttpPost::AddFile\<close> or \<^verbatim>\<open>AddField\<close> on the body built so far. The \<open>getinfo_*\<close>
  are \<^verbatim>\<open>curl_easy_getinfo\<close> at each type of out-parameter; a \<^verbatim>\<open>char*\<close> result is \<open>None\<close> for the null
  pointer.
\<close>

record curl =
  optionIn :: "option_table \<Rightarrow> js_value \<Rightarrow> CURLoption option"
  infoIn :: "info_table \<Rightarrow> js_value \<Rightarrow> CURLINFO option"
  curl_easy_setopt :: "curl_call list \<Rightarrow> CURLoption \<Rightarrow> setopt_arg \<Rightarrow> CURLcode"
  formadd :: "post_part list \<Rightarrow> post_part \<Rightarrow> nat"
  getinfo_string :: "curl_call list \<Rightarrow> CURLINFO \<Rightarrow> CURLcode \<times> string option"
  getinfo_double :: "curl_call list \<Rightarrow> CURLINFO \<Rightarrow> CURLcode \<times> js_num"
  getinfo_off_t :: "curl_call list \<Rightarrow> CURLINFO \<Rightarrow> CURLcode \<times> int"
  getinfo_long :: "curl_call list \<Rightarrow> CURLINFO \<Rightarrow> CURLcode \<times> int"
  getinfo_socket :: "curl_call list \<Rightarrow> CURLINFO \<Rightarrow> CURLcode \<times> int"
  getinfo_slist :: "curl_call list \<Rightarrow> CURLINFO \<Rightarrow> CURLcode \<times> string list"

definition CURL_FORMADD_OK :: nat where
  "CURL_FORMADD_OK = 0"

text \<open>One option-set call on the handle: its status, and the handle with the call recorded.\<close>

definition easy_setopt :: "curl \<Rightarrow> Easy \<Rightarrow> CURLoption \<Rightarrow> setopt_arg \<Rightarrow> CURLcode \<times> Easy" where
  "easy_setopt C obj opt arg =
     (let rc = curl_easy_setopt C (ch obj) opt arg
      in (rc, obj\<lparr>ch := ch obj @ [(opt, arg, rc)]\<rparr>))"

text \<open>
  \<^verbatim>\<open>ResetRequiredHandleOptions\<close>, which the constructor runs: the engine's write callback is the
  adapter's \<^verbatim>\<open>WriteFunction\<close> from the start.
\<close>

definition ResetRequiredHandleOptions :: "curl \<Rightarrow> Easy \<Rightarrow> Easy" where
  "ResetRequiredHandleOptions C obj =
     (let obj1 = snd (easy_setopt C obj CURLOPT_PRIVATE ArgThis);
          obj2 = snd (easy_setopt C obj1 CURLOPT_READDATA ArgThis);
          obj3 = snd (easy_setopt C obj2 CURLOPT_SEEKDATA ArgThis);
          obj4 = snd (easy_setopt C obj3 CURLOPT_WRITEFUNCTION (ArgFn TrWriteFunction))
      in snd (easy_setopt C obj4 CURLOPT_WRITEDATA ArgThis))"

section \<open>setOpt\<close>

subsection \<open>The multipart body (HTTPPOST)\<close>

datatype CurlHttpPost_id =
    CurlHttpPost_NAME | CurlHttpPost_FILE | CurlHttpPost_CONTENTS
  | CurlHttpPost_TYPE | CurlHttpPost_FILENAME

text \<open>
  Modelled from the spec: the table \<^verbatim>\<open>curlOptionHttpPost\<close> is declared outside the source files
  at hand; its five names are those of the descriptor keys \<open>name\<close>, \<open>file\<close>, \<open>contents\<close>, \<open>type\<close> and
  \<open>filename\<close>, in the upper case the lookup compares with.
\<close>

definition curlOptionHttpPost :: "(string \<times> CurlHttpPost_id) list" where
  "curlOptionHttpPost =
     [(''NAME'', CurlHttpPost_NAME), (''FILE'', CurlHttpPost_FILE),
      (''CONTENTS'', CurlHttpPost_CONTENTS), (''TYPE'', CurlHttpPost_TYPE),
      (''FILENAME'', CurlHttpPost_FILENAME)]"

text \<open>\<^verbatim>\<open>::toupper\<close> in the C locale: the 26 lower-case letters change, nothing else does.\<close>

definition toupper :: "char \<Rightarrow> char" where
  "toupper c =
     (case map_of (zip ''abcdefghijklmnopqrstuvwxyz'' ''ABCDEFGHIJKLMNOPQRSTUVWXYZ'') c of
        Some u \<Rightarrow> u
      | None \<Rightarrow> c)"

text \<open>The scan of the table: the last entry of that name wins, \<open>None\<close> is the initial \<open>-1\<close>.\<close>

definition httpPostId :: "string \<Rightarrow> CurlHttpPost_id option" where
  "httpPostId optionName =
     foldl (\<lambda>found (name, v). if name = optionName then Some v else found) None
       curlOptionHttpPost"

text \<open>
  Own enumerable properties in order, and \<^verbatim>\<open>Nan::Get\<close> by name. The properties of an array and
  of a buffer are their indices; functions, dates and errors have none.
\<close>

fun properties :: "js_value \<Rightarrow> (string \<times> js_value) list" where
  "properties (JObject ps) = ps"
| "properties (JArray vs) = map (\<lambda>(i, v). (decimal i, v)) (enumerate 0 vs)"
| "properties (JBuffer b) =
     map (\<lambda>(i, c). (decimal i, JNumber (Whole (int (of_char c))))) (enumerate 0 b)"
| "properties _ = []"

definition GetPropertyNames :: "js_value \<Rightarrow> string list" where
  "GetPropertyNames v = map fst (properties v)"

definition Get :: "js_value \<Rightarrow> string \<Rightarrow> js_value" where
  "Get v key = (case map_of (properties v) key of Some x \<Rightarrow> x | None \<Rightarrow> JUndefined)"

record post_flags =
  hasFile :: bool
  hasContentType :: bool
  hasContent :: bool
  hasName :: bool
  hasNewFileName :: bool

definition noFlags :: post_flags where
  "noFlags = \<lparr>hasFile = False, hasContentType = False, hasContent = False, hasName = False,
               hasNewFileName = False\<rparr>"

fun setFlag :: "CurlHttpPost_id \<Rightarrow> post_flags \<Rightarrow> post_flags" where
  "setFlag CurlHttpPost_FILE fl = fl\<lparr>hasFile := True\<rparr>"
| "setFlag CurlHttpPost_TYPE fl = fl\<lparr>hasContentType := True\<rparr>"
| "setFlag CurlHttpPost_CONTENTS fl = fl\<lparr>hasContent := True\<rparr>"
| "setFlag CurlHttpPost_NAME fl = fl\<lparr>hasName := True\<rparr>"
| "setFlag CurlHttpPost_FILENAME fl = fl\<lparr>hasNewFileName := True\<rparr>"

definition dq :: string where
  "dq = [CHR 0x22]"

text \<open>
  The loop over the property names of one descriptor \<open>postData\<close>. The name looked up in the
  table is \<^verbatim>\<open>std::string(*fieldName)\<close> in upper case: the key as a C string, so up to its first
  NUL byte.
\<close>

fun checkProps :: "js_value \<Rightarrow> string list \<Rightarrow> post_flags \<Rightarrow> js_value + post_flags" where
  "checkProps postData [] fl = Inr fl"
| "checkProps postData (postDataKey # keys) fl =
     (let postDataValue = Get postData postDataKey;
          optionName = map toupper (c_str postDataKey)
      in case httpPostId optionName of
           None \<Rightarrow>
             Inl (JError (''Invalid property given: '' @ dq @ optionName @ dq
                    @ ''. Valid properties are file, type, contents, name and filename.''))
         | Some i \<Rightarrow>
             (if \<not> IsString postDataValue then
                Inl (JTypeError (''Value for property '' @ dq @ optionName @ dq
                       @ '' must be a string.''))
              else checkProps postData keys (setFlag i fl)))"

definition invalidArrayMsg :: string where
  "invalidArrayMsg = ''HTTPPOST option value should be an Array of Objects.''"

text \<open>
  One row of the array: validate it, then add it to the body \<open>httpPost\<close> built so far. The
  field name and the contents go with their lengths; the file, its type and its new name go
  as C strings.
\<close>

definition addRow ::
  "curl \<Rightarrow> host \<Rightarrow> js_value \<Rightarrow> post_part list \<Rightarrow> js_value + post_part list" where
  "addRow C H row httpPost =
     (if \<not> IsObject row then Inl (JTypeError invalidArrayMsg)
      else
        (case checkProps row (GetPropertyNames row) noFlags of
           Inl e \<Rightarrow> Inl e
         | Inr fl \<Rightarrow>
             (if \<not> hasName fl then Inl (JError (''Missing field '' @ dq @ ''name'' @ dq @ ''.''))
              else
                (let fieldName = Utf8String H (Get row ''name'');
                     added = (\<lambda>part.
                        if formadd C httpPost part \<noteq> CURL_FORMADD_OK then
                          Inl (JError (''Error while adding field '' @ dq @ c_str fieldName @ dq
                                 @ '' to post data.''))
                        else Inr (httpPost @ [part]))
                 in if hasFile fl then
                      (let file = c_str (Utf8String H (Get row ''file''))
                       in if hasContentType fl then
                            (let contentType = c_str (Utf8String H (Get row ''type''))
                             in if hasNewFileName fl then
                                  added (PostFile fieldName (length fieldName) file
                                    (Some contentType)
                                    (Some (c_str (Utf8String H (Get row ''filename'')))))
                                else
                                  added (PostFile fieldName (length fieldName) file
                                    (Some contentType) None))
                          else added (PostFile fieldName (length fieldName) file None None))
                    else if hasContent fl then
                      (let fieldValue = Utf8String H (Get row ''contents'')
                       in added (PostField fieldName (length fieldName) fieldValue
                            (length fieldValue)))
                    else Inl (JError (''Missing field '' @ dq @ ''contents'' @ dq @ ''.''))))))"

fun addRows ::
  "curl \<Rightarrow> host \<Rightarrow> js_value list \<Rightarrow> post_part list \<Rightarrow> js_value + post_part list" where
  "addRows C H [] httpPost = Inr httpPost"
| "addRows C H (row # rows) httpPost =
     (case addRow C H row httpPost of
        Inl e \<Rightarrow> Inl e
      | Inr httpPost' \<Rightarrow> addRows C H rows httpPost')"

text \<open>
  The result of a host method: the exception it throws (\<open>Inl\<close>) or the value it returns, and
  the handle afterwards.
\<close>

type_synonym 'a method_result = "(js_value + 'a) \<times> Easy"

definition SetOpt_HTTPPOST :: "curl \<Rightarrow> host \<Rightarrow> Easy \<Rightarrow> js_value \<Rightarrow> CURLcode method_result" where
  "SetOpt_HTTPPOST C H obj val =
     (case val of
        JArray rows \<Rightarrow>
          (case addRows C H rows [] of
             Inl e \<Rightarrow> (Inl e, obj)
           | Inr httpPost \<Rightarrow>
               (let (setOptRetCode, obj1) = easy_setopt C obj CURLOPT_HTTPPOST (ArgPost httpPost)
                in (Inr setOptRetCode,
                    if setOptRetCode = CURLE_OK
                    then obj1\<lparr>toFree_post := toFree_post obj1 @ [httpPost]\<rparr>
                    else obj1)))
      | _ \<Rightarrow> (Inl (JTypeError invalidArrayMsg), obj))"

subsection \<open>List-valued options\<close>

definition curl_slist_append :: "string list \<Rightarrow> string \<Rightarrow> string list" where
  "curl_slist_append slist s = slist @ [c_str s]"

text \<open>
  The list is built node by node from the null pointer; once built it is a live allocation
  (unless it has no node). It is pushed on \<^verbatim>\<open>toFree->slist\<close> only when the engine returned
  \<^verbatim>\<open>CURLE_OK\<close>, and nothing is done with it otherwise.
\<close>

definition SetOpt_LinkedList ::
  "curl \<Rightarrow> host \<Rightarrow> Easy \<Rightarrow> CURLoption \<Rightarrow> js_value \<Rightarrow> CURLcode method_result" where
  "SetOpt_LinkedList C H obj optionId val =
     (if IsNull val then
        (let (setOptRetCode, obj1) = easy_setopt C obj optionId ArgNull
         in (Inr setOptRetCode, obj1))
      else
        (case val of
           JArray array \<Rightarrow>
             (let slist = foldl (\<lambda>sl v. curl_slist_append sl (Utf8String H v)) [] array;
                  obj0 = (if slist = [] then obj
                          else obj\<lparr>slistHeap := slistHeap obj @ [slist]\<rparr>);
                  (setOptRetCode, obj1) = easy_setopt C obj0 optionId (ArgSList slist)
              in (Inr setOptRetCode,
                  if setOptRetCode = CURLE_OK
                  then obj1\<lparr>toFree_slist := toFree_slist obj1 @ [slist]\<rparr>
                  else obj1))
         | _ \<Rightarrow> (Inl (JTypeError ''Option value must be an Array.''), obj)))"

text \<open>
  \<^verbatim>\<open>~ToFree\<close>: every list of \<^verbatim>\<open>toFree->slist\<close> goes to \<^verbatim>\<open>curl_slist_free_all\<close>; the vectors
  themselves go with the object.
\<close>

definition curl_slist_free_all :: "string list list \<Rightarrow> string list \<Rightarrow> string list list" where
  "curl_slist_free_all heap slist = remove1 slist heap"

definition ToFree_destroy :: "Easy \<Rightarrow> Easy" where
  "ToFree_destroy obj =
     obj\<lparr>slistHeap := foldl curl_slist_free_all (slistHeap obj) (toFree_slist obj),
         toFree_str := [], toFree_slist := [], toFree_post := []\<rparr>"

subsection \<open>String-valued options\<close>

text \<open>
  The guard \<^verbatim>\<open>!value->IsString()\<close> comes first; \<open>isNull\<close> is computed after it, as in the source.
\<close>

definition SetOpt_String ::
  "curl \<Rightarrow> host \<Rightarrow> Easy \<Rightarrow> CURLoption \<Rightarrow> js_value \<Rightarrow> CURLcode method_result" where
  "SetOpt_String C H obj optionId val =
     (if \<not> IsString val then (Inl (JTypeError ''Option value must be a string.''), obj)
      else
        (let isNull = IsNull val;
             obj0 = (if isNull then snd (easy_setopt C obj optionId ArgNull) else obj);
             valueStr = Utf8String H val
         in if optionId = CURLOPT_POSTFIELDS then
              (let valueChar = valueStr @ [CHR 0x00];
                   (setOptRetCode, obj1) = easy_setopt C obj0 optionId (ArgStr valueChar)
               in (Inr setOptRetCode,
                   if setOptRetCode = CURLE_OK
                   then obj1\<lparr>toFree_str := toFree_str obj1 @ [valueChar]\<rparr>
                   else obj1))
            else
              (let (setOptRetCode, obj1) = easy_setopt C obj0 optionId (ArgStr valueStr)
               in (Inr setOptRetCode, obj1))))"

subsection \<open>Integer-valued options\<close>

definition SetOpt_Integer ::
  "curl \<Rightarrow> host \<Rightarrow> Easy \<Rightarrow> CURLoption \<Rightarrow> js_value \<Rightarrow> CURLcode method_result" where
  "SetOpt_Integer C H obj optionId val =
     (if optionId \<in> {CURLOPT_INFILESIZE_LARGE, CURLOPT_MAXFILESIZE_LARGE,
                      CURLOPT_MAX_RECV_SPEED_LARGE, CURLOPT_MAX_SEND_SPEED_LARGE,
                      CURLOPT_POSTFIELDSIZE_LARGE, CURLOPT_RESUME_FROM_LARGE} then
        (let (setOptRetCode, obj1) = easy_setopt C obj optionId (ArgOffT (coerce_off_t H val))
         in (Inr setOptRetCode, obj1))
      else if optionId = CURLOPT_READDATA then
        (Inr CURLE_OK, obj\<lparr>readDataFileDescriptor := coerce_int32 H val\<rparr>)
      else
        (let (setOptRetCode, obj1) = easy_setopt C obj optionId (ArgLong (coerce_int32 H val))
         in (Inr setOptRetCode, obj1)))"

subsection \<open>Callback-valued options\<close>

text \<open>
  The case of a slot with a user-data option of its own (\<^verbatim>\<open>DEBUGFUNCTION\<close>, \<^verbatim>\<open>FNMATCH_FUNCTION\<close>,
  \<^verbatim>\<open>PROGRESSFUNCTION\<close>, \<^verbatim>\<open>TRAILERFUNCTION\<close>, \<^verbatim>\<open>XFERINFOFUNCTION\<close>): the registry is updated first,
  the status of the user-data call is dropped, the status of the function call is returned.
\<close>

definition setCallback ::
  "curl \<Rightarrow> Easy \<Rightarrow> js_value \<Rightarrow> CURLoption \<Rightarrow> CURLoption \<Rightarrow> trampoline \<Rightarrow> CURLcode \<times> Easy" where
  "setCallback C obj val fnOpt dataOpt tr =
     (case val of
        JFunction f \<Rightarrow>
          (let obj1 = obj\<lparr>callbacks := (callbacks obj)(fnOpt \<mapsto> f)\<rparr>;
               obj2 = snd (easy_setopt C obj1 dataOpt ArgThis)
           in easy_setopt C obj2 fnOpt (ArgFn tr))
      | _ \<Rightarrow>
          (let obj1 = obj\<lparr>callbacks := (callbacks obj)(fnOpt := None)\<rparr>;
               obj2 = snd (easy_setopt C obj1 dataOpt ArgNull)
           in easy_setopt C obj2 fnOpt ArgNull))"

text \<open>
  The two chunk slots share \<^verbatim>\<open>CHUNK_DATA\<close>: on \<open>null\<close> it is unset only if \<open>other\<close> has no
  registry entry.
\<close>

definition setChunkCallback ::
  "curl \<Rightarrow> Easy \<Rightarrow> js_value \<Rightarrow> CURLoption \<Rightarrow> CURLoption \<Rightarrow> trampoline \<Rightarrow> CURLcode \<times> Easy" where
  "setChunkCallback C obj val fnOpt other tr =
     (case val of
        JFunction f \<Rightarrow>
          (let obj1 = obj\<lparr>callbacks := (callbacks obj)(fnOpt \<mapsto> f)\<rparr>;
               obj2 = snd (easy_setopt C obj1 CURLOPT_CHUNK_DATA ArgThis)
           in easy_setopt C obj2 fnOpt (ArgFn tr))
      | _ \<Rightarrow>
          (let obj1 = (if callbacks obj other = None
                       then snd (easy_setopt C obj CURLOPT_CHUNK_DATA ArgNull)
                       else obj);
               obj2 = obj1\<lparr>callbacks := (callbacks obj1)(fnOpt := None)\<rparr>
           in easy_setopt C obj2 fnOpt ArgNull))"

definition SetOpt_Function ::
  "curl \<Rightarrow> Easy \<Rightarrow> CURLoption \<Rightarrow> js_value \<Rightarrow> CURLcode method_result" where
  "SetOpt_Function C obj optionId val =
     (let isNull = IsNull val
      in if \<not> IsFunction val \<and> \<not> isNull then
           (Inl (JTypeError ''Option value must be a null or a function.''), obj)
         else
           (let (setOptRetCode, obj') =
              (case optionId of
                 CURLOPT_CHUNK_BGN_FUNCTION \<Rightarrow>
                   setChunkCallback C obj val CURLOPT_CHUNK_BGN_FUNCTION
                     CURLOPT_CHUNK_END_FUNCTION TrCbChunkBgn
               | CURLOPT_CHUNK_END_FUNCTION \<Rightarrow>
                   setChunkCallback C obj val CURLOPT_CHUNK_END_FUNCTION
                     CURLOPT_CHUNK_BGN_FUNCTION TrCbChunkEnd
               | CURLOPT_DEBUGFUNCTION \<Rightarrow>
                   setCallback C obj val CURLOPT_DEBUGFUNCTION CURLOPT_DEBUGDATA TrCbDebug
               | CURLOPT_FNMATCH_FUNCTION \<Rightarrow>
                   setCallback C obj val CURLOPT_FNMATCH_FUNCTION CURLOPT_FNMATCH_DATA
                     TrCbFnMatch
               | CURLOPT_PROGRESSFUNCTION \<Rightarrow>
                   setCallback C obj val CURLOPT_PROGRESSFUNCTION CURLOPT_PROGRESSDATA
                     TrCbProgress
               | CURLOPT_TRAILERFUNCTION \<Rightarrow>
                   setCallback C obj val CURLOPT_TRAILERFUNCTION CURLOPT_TRAILERDATA
                     TrCbTrailer
               | CURLOPT_XFERINFOFUNCTION \<Rightarrow>
                   setCallback C obj val CURLOPT_XFERINFOFUNCTION CURLOPT_XFERINFODATA
                     TrCbXferinfo
               | CURLOPT_WRITEFUNCTION \<Rightarrow>
                   (CURLE_OK,
                    (case val of
                       JFunction f \<Rightarrow>
                         obj\<lparr>callbacks := (callbacks obj)(CURLOPT_WRITEFUNCTION \<mapsto> f)\<rparr>
                     | _ \<Rightarrow> obj\<lparr>callbacks := (callbacks obj)(CURLOPT_WRITEFUNCTION := None)\<rparr>))
               | _ \<Rightarrow> (CURLE_UNKNOWN_OPTION, obj))
            in (Inr setOptRetCode, obj')))"

subsection \<open>The method\<close>

definition unsupportedOption :: js_value where
  "unsupportedOption =
     JError (''Unsupported option, probably because it's too complex to implement ''
       @ ''using javascript or unecessary when using javascript (like the _DATA options).'')"

definition SetOpt :: "curl \<Rightarrow> host \<Rightarrow> Easy \<Rightarrow> js_value \<Rightarrow> js_value \<Rightarrow> CURLcode method_result" where
  "SetOpt C H obj opt val =
     (if \<not> isOpen obj then (Inl (JError ''Curl handle is closed.''), obj)
      else
        (case optionIn C curlOptionNotImplemented opt of
           Some optionId \<Rightarrow> (Inl unsupportedOption, obj)
         | None \<Rightarrow>
        (case optionIn C curlOptionSpecific opt of
           Some optionId \<Rightarrow> (Inr CURLE_UNKNOWN_OPTION, obj)
         | None \<Rightarrow>
        (case optionIn C curlOptionLinkedList opt of
           Some optionId \<Rightarrow>
             (if optionId = CURLOPT_HTTPPOST then SetOpt_HTTPPOST C H obj val
              else SetOpt_LinkedList C H obj optionId val)
         | None \<Rightarrow>
        (case optionIn C curlOptionString opt of
           Some optionId \<Rightarrow> SetOpt_String C H obj optionId val
         | None \<Rightarrow>
        (case optionIn C curlOptionInteger opt of
           Some optionId \<Rightarrow> SetOpt_Integer C H obj optionId val
         | None \<Rightarrow>
        (case optionIn C curlOptionFunction opt of
           Some optionId \<Rightarrow> SetOpt_Function C obj optionId val
         | None \<Rightarrow> (Inr CURLE_UNKNOWN_OPTION, obj))))))))"

section \<open>getInfo\<close>

subsection \<open>Numbers as text\<close>

text \<open>\<^verbatim>\<open>std::to_string\<close> on an \<^verbatim>\<open>int\<close>.\<close>

definition to_string :: "int \<Rightarrow> string" where
  "to_string i = (if i < 0 then CHR ''-'' # decimal (nat (- i)) else decimal (nat i))"

definition isdigit :: "char \<Rightarrow> bool" where
  "isdigit c = (c \<in> set ''0123456789'')"

definition digit_value :: "string \<Rightarrow> int" where
  "digit_value s = foldl (\<lambda>a c. 10 * a + (int (of_char c) - 48)) 0 s"

text \<open>
  \<^verbatim>\<open>std::stoi\<close> on a string of decimal digits, the only strings it is called with here: the
  number, or \<^verbatim>\<open>std::out_of_range\<close> (\<open>None\<close>) beyond the largest \<^verbatim>\<open>int\<close>.
\<close>

definition stoi :: "string \<Rightarrow> int option" where
  "stoi s = (if digit_value s > 2147483647 then None else Some (digit_value s))"

text \<open>
  The recovery of a status from the message of a caught exception: all characters that are
  not digits are erased; what is left, or \<open>43\<close> if nothing is, goes to \<^verbatim>\<open>std::stoi\<close>.
\<close>

definition codeFromMessage :: "string \<Rightarrow> int option" where
  "codeFromMessage msg =
     (let errCode = filter isdigit msg
      in stoi (if length errCode > 0 then errCode else ''43''))"

text \<open>
  The text the runtime's \<^verbatim>\<open>TryCatch::Message()->Get()\<close> gives for a thrown error: the kind of
  the error after the word \<open>Uncaught\<close>, then the error's own message. Under the \<^verbatim>\<open>TryCatch\<close> of
  \<^verbatim>\<open>GetInfo\<close> only errors made by \<^verbatim>\<open>Nan::ThrowError\<close> are thrown.
\<close>

fun Message :: "js_value \<Rightarrow> string" where
  "Message (JError m) = ''Uncaught Error: '' @ m"
| "Message (JTypeError m) = ''Uncaught TypeError: '' @ m"
| "Message _ = ''Uncaught exception''"

subsection \<open>The conversions\<close>

text \<open>
  \<^verbatim>\<open>GetInfoTmpl\<close> on the engine's answer \<open>(code, result)\<close>: the converted value and the error it
  throws. \<open>isChar\<close> is \<^verbatim>\<open>ResultTypeIsChar<TResultType>::value\<close>, \<open>isZero\<close> is \<^verbatim>\<open>!result\<close> and \<open>conv\<close>
  is \<^verbatim>\<open>Nan::New<Tv8MappingType>\<close>.
\<close>

definition GetInfoTmpl ::
  "bool \<Rightarrow> ('r \<Rightarrow> bool) \<Rightarrow> ('r \<Rightarrow> js_value) \<Rightarrow> CURLcode \<times> 'r \<Rightarrow> js_value \<times> js_value option" where
  "GetInfoTmpl isChar isZero conv answer =
     (case answer of (code, result) \<Rightarrow>
        (if code \<noteq> CURLE_OK then (JUndefined, Some (JError (to_string (int code))))
         else if isChar \<and> isZero result then (JString [], None)
         else (conv result, None)))"

definition GetInfoTmpl_string :: "curl \<Rightarrow> Easy \<Rightarrow> CURLINFO \<Rightarrow> js_value \<times> js_value option" where
  "GetInfoTmpl_string C obj infoId =
     GetInfoTmpl True (\<lambda>r. r = None) (\<lambda>r. case r of Some s \<Rightarrow> JString s | None \<Rightarrow> JUndefined)
       (getinfo_string C (ch obj) infoId)"

definition GetInfoTmpl_double :: "curl \<Rightarrow> Easy \<Rightarrow> CURLINFO \<Rightarrow> js_value \<times> js_value option" where
  "GetInfoTmpl_double C obj infoId =
     GetInfoTmpl False (\<lambda>r. r = Whole 0) JNumber (getinfo_double C (ch obj) infoId)"

text \<open>
  For \<^verbatim>\<open>curl_off_t\<close> and \<^verbatim>\<open>long\<close> results \<^verbatim>\<open>Nan::New<v8::Number>\<close> takes a \<^verbatim>\<open>double\<close>; the model keeps the
  integer exact, which is the same number up to \<open>2^53\<close>.
\<close>

definition GetInfoTmpl_off_t :: "curl \<Rightarrow> Easy \<Rightarrow> CURLINFO \<Rightarrow> js_value \<times> js_value option" where
  "GetInfoTmpl_off_t C obj infoId =
     GetInfoTmpl False (\<lambda>r. r = 0) (\<lambda>r. JNumber (Whole r)) (getinfo_off_t C (ch obj) infoId)"

definition GetInfoTmpl_long :: "curl \<Rightarrow> Easy \<Rightarrow> CURLINFO \<Rightarrow> js_value \<times> js_value option" where
  "GetInfoTmpl_long C obj infoId =
     GetInfoTmpl False (\<lambda>r. r = 0) (\<lambda>r. JNumber (Whole r)) (getinfo_long C (ch obj) infoId)"

text \<open>
  The part of \<^verbatim>\<open>GetInfo\<close> under its \<^verbatim>\<open>Nan::TryCatch\<close>: \<open>retVal\<close>, \<open>code\<close> and the exception caught.
\<close>

definition GetInfo_convert ::
  "curl \<Rightarrow> Easy \<Rightarrow> js_value \<Rightarrow> js_value \<times> int \<times> js_value option" where
  "GetInfo_convert C obj infoVal =
     (case infoIn C curlInfoString infoVal of
        Some infoId \<Rightarrow>
          (let (retVal, caught) = GetInfoTmpl_string C obj infoId in (retVal, 0, caught))
      | None \<Rightarrow>
     (case infoIn C curlInfoDouble infoVal of
        Some infoId \<Rightarrow>
          (let (retVal, caught) =
             (if infoId \<in> {CURLINFO_FILETIME_T,
                   CURLINFO_APPCONNECT_TIME_T, CURLINFO_CONNECT_TIME_T,
                   CURLINFO_NAMELOOKUP_TIME_T, CURLINFO_PRETRANSFER_TIME_T,
                   CURLINFO_REDIRECT_TIME_T, CURLINFO_STARTTRANSFER_TIME_T,
                   CURLINFO_TOTAL_TIME_T,
                   CURLINFO_CONTENT_LENGTH_DOWNLOAD_T, CURLINFO_CONTENT_LENGTH_UPLOAD_T,
                   CURLINFO_SIZE_DOWNLOAD_T, CURLINFO_SIZE_UPLOAD_T,
                   CURLINFO_SPEED_DOWNLOAD_T, CURLINFO_SPEED_UPLOAD_T}
              then GetInfoTmpl_off_t C obj infoId
              else GetInfoTmpl_double C obj infoId)
           in (retVal, 0, caught))
      | None \<Rightarrow>
     (case infoIn C curlInfoInteger infoVal of
        Some infoId \<Rightarrow>
          (let (retVal, caught) = GetInfoTmpl_long C obj infoId in (retVal, 0, caught))
      | None \<Rightarrow>
     (case infoIn C curlInfoSocket infoVal of
        Some infoId \<Rightarrow>
          (case getinfo_socket C (ch obj) infoId of (code, socket) \<Rightarrow>
             (if code = CURLE_OK then (JNumber (Whole socket), int code, None)
              else (JUndefined, int code, None)))
      | None \<Rightarrow>
     (case infoIn C curlInfoLinkedList infoVal of
        Some infoId \<Rightarrow>
          (case getinfo_slist C (ch obj) infoId of (code, linkedList) \<Rightarrow>
             (if code = CURLE_OK then (JArray (map JString linkedList), int code, None)
              else (JUndefined, int code, None)))
      | None \<Rightarrow> (JUndefined, 0, None))))))"

definition unsupportedInfo :: js_value where
  "unsupportedInfo =
     JError (''Unsupported info, probably because it's too complex to implement ''
       @ ''using javascript or unecessary when using javascript.'')"

definition infoObject :: "int \<Rightarrow> js_value \<Rightarrow> js_value" where
  "infoObject code retVal = JObject [(''code'', JNumber (Whole code)), (''data'', retVal)]"

text \<open>
  The method: \<open>Inr (Inl e)\<close> is the exception \<open>e\<close> thrown to the host, \<open>Inr (Inr v)\<close> the value
  returned, \<open>Inl\<close> the end of the process on an uncaught \<^verbatim>\<open>std::out_of_range\<close>.
\<close>

definition GetInfo :: "curl \<Rightarrow> Easy \<Rightarrow> js_value \<Rightarrow> (js_value + js_value) or_fatal" where
  "GetInfo C obj infoVal =
     (if \<not> isOpen obj then Inr (Inl (JError ''Curl handle is closed.''))
      else
        (case infoIn C curlInfoNotImplemented infoVal of
           Some infoId \<Rightarrow> Inr (Inl unsupportedInfo)
         | None \<Rightarrow>
             (case GetInfo_convert C obj infoVal of (retVal, code, caught) \<Rightarrow>
                (case caught of
                   None \<Rightarrow> Inr (Inr (infoObject code retVal))
                 | Some e \<Rightarrow>
                     (case codeFromMessage (Message e) of
                        None \<Rightarrow> Inl ''std::out_of_range: stoi''
                      | Some code' \<Rightarrow> Inr (Inr (infoObject code' retVal)))))))"


section \<open>Classes of options and the engine's view\<close>

text \<open>
  The class of an option: the first table, in the order of the tests of \<^verbatim>\<open>SetOpt\<close>, that holds it,
  with the identifier found there.
\<close>

definition optionClass :: "curl \<Rightarrow> js_value \<Rightarrow> (option_table \<times> CURLoption) option" where
  "optionClass C opt =
     (case optionIn C curlOptionNotImplemented opt of
        Some i \<Rightarrow> Some (curlOptionNotImplemented, i)
      | None \<Rightarrow>
     (case optionIn C curlOptionSpecific opt of
        Some i \<Rightarrow> Some (curlOptionSpecific, i)
      | None \<Rightarrow>
     (case optionIn C curlOptionLinkedList opt of
        Some i \<Rightarrow> Some (curlOptionLinkedList, i)
      | None \<Rightarrow>
     (case optionIn C curlOptionString opt of
        Some i \<Rightarrow> Some (curlOptionString, i)
      | None \<Rightarrow>
     (case optionIn C curlOptionInteger opt of
        Some i \<Rightarrow> Some (curlOptionInteger, i)
      | None \<Rightarrow>
     (case optionIn C curlOptionFunction opt of
        Some i \<Rightarrow> Some (curlOptionFunction, i)
      | None \<Rightarrow> None))))))"

text \<open>
  What the engine holds for an option after a history of calls: the argument of the last
  call on that option that it answered with \<^verbatim>\<open>CURLE_OK\<close>.
\<close>

definition installed :: "curl_call list \<Rightarrow> CURLoption \<Rightarrow> setopt_arg option" where
  "installed calls opt =
     (case rev (filter (\<lambda>(opt', arg, rc). opt' = opt \<and> rc = CURLE_OK) calls) of
        [] \<Rightarrow> None
      | (opt', arg, rc) # earlier \<Rightarrow> Some arg)"

text \<open>
  The callback slots for which \<^verbatim>\<open>SetOpt\<close> sets an engine-side function pointer, each with its
  user-data option and the trampoline installed.
\<close>

fun slotTrampoline :: "CURLoption \<Rightarrow> (CURLoption \<times> trampoline) option" where
  "slotTrampoline CURLOPT_CHUNK_BGN_FUNCTION = Some (CURLOPT_CHUNK_DATA, TrCbChunkBgn)"
| "slotTrampoline CURLOPT_CHUNK_END_FUNCTION = Some (CURLOPT_CHUNK_DATA, TrCbChunkEnd)"
| "slotTrampoline CURLOPT_DEBUGFUNCTION = Some (CURLOPT_DEBUGDATA, TrCbDebug)"
| "slotTrampoline CURLOPT_FNMATCH_FUNCTION = Some (CURLOPT_FNMATCH_DATA, TrCbFnMatch)"
| "slotTrampoline CURLOPT_PROGRESSFUNCTION = Some (CURLOPT_PROGRESSDATA, TrCbProgress)"
| "slotTrampoline CURLOPT_TRAILERFUNCTION = Some (CURLOPT_TRAILERDATA, TrCbTrailer)"
| "slotTrampoline CURLOPT_XFERINFOFUNCTION = Some (CURLOPT_XFERINFODATA, TrCbXferinfo)"
| "slotTrampoline _ = None"




section \<open>Runs of progress invocations\<close>





section \<open>Sample handles, hosts and engines\<close>

text \<open>A fresh open handle, as the constructor leaves it.\<close>

definition newEasy :: Easy where
  "newEasy =
     \<lparr>ch = [], isOpen = True, isInsideMultiHandle = False, isCbProgressAlreadyAborted = False,
      callbackError = None, callbacks = Map.empty, toFree_str = [], toFree_slist = [],
      toFree_post = [], slistHeap = [], readDataFileDescriptor = 0, onData = JUndefined\<rparr>"

text \<open>A host whose callable \<open>f\<close> answers \<open>answer f\<close> whatever the arguments are.\<close>

definition hostOf :: "(callable \<Rightarrow> call_result) \<Rightarrow> host" where
  "hostOf answer =
     \<lparr>call = (\<lambda>f argv. answer f), coerce_uint32 = (\<lambda>v. 0), coerce_int32 = (\<lambda>v. 0),
      coerce_off_t = (\<lambda>v. 0), coerce_string = (\<lambda>v. ''undefined'')\<rparr>"

text \<open>
  A table of options by name, and an engine that answers every option-set call with \<open>rc\<close>
  and every info call with \<open>ic\<close> and null results.
\<close>

fun sampleOptions :: "option_table \<Rightarrow> js_value \<Rightarrow> CURLoption option" where
  "sampleOptions t (JString name) =
     (if t = curlOptionLinkedList \<and> name = ''HTTPPOST'' then Some CURLOPT_HTTPPOST
      else if t = curlOptionLinkedList \<and> name = ''HTTPHEADER'' then Some (CURLOPT_OTHER 10023)
      else if t = curlOptionString \<and> name = ''URL'' then Some (CURLOPT_OTHER 10002)
      else if t = curlOptionFunction \<and> name = ''DEBUGFUNCTION'' then Some CURLOPT_DEBUGFUNCTION
      else if t = curlOptionFunction \<and> name = ''CHUNK_BGN_FUNCTION''
        then Some CURLOPT_CHUNK_BGN_FUNCTION
      else if t = curlOptionFunction \<and> name = ''CHUNK_END_FUNCTION''
        then Some CURLOPT_CHUNK_END_FUNCTION
      else if t = curlOptionFunction \<and> name = ''WRITEFUNCTION'' then Some CURLOPT_WRITEFUNCTION
      else if t = curlOptionFunction \<and> name = ''READFUNCTION'' then Some (CURLOPT_OTHER 20012)
      else None)"
| "sampleOptions t v = None"

fun sampleInfos :: "info_table \<Rightarrow> js_value \<Rightarrow> CURLINFO option" where
  "sampleInfos t (JString name) =
     (if t = curlInfoString \<and> name = ''EFFECTIVE_URL'' then Some (CURLINFO_OTHER 1048577)
      else None)"
| "sampleInfos t v = None"

definition sampleCurl :: "CURLcode \<Rightarrow> CURLcode \<Rightarrow> curl" where
  "sampleCurl rc ic =
     \<lparr>optionIn = sampleOptions, infoIn = sampleInfos,
      curl_easy_setopt = (\<lambda>calls opt arg. rc), formadd = (\<lambda>body part. 0),
      getinfo_string = (\<lambda>calls i. (ic, None)), getinfo_double = (\<lambda>calls i. (ic, Whole 0)),
      getinfo_off_t = (\<lambda>calls i. (ic, 0)), getinfo_long = (\<lambda>calls i. (ic, 0)),
      getinfo_socket = (\<lambda>calls i. (ic, 0)), getinfo_slist = (\<lambda>calls i. (ic, []))\<rparr>"



definition multiEasy :: Easy where
  "multiEasy = newEasy\<lparr>isInsideMultiHandle := True, callbacks := [CURLOPT_WRITEFUNCTION \<mapsto> 5]\<rparr>"

definition throwingHost :: host where
  "throwingHost = hostOf (\<lambda>f. Threw (JError ''boom''))"

definition answeringHost :: "int \<Rightarrow> host" where
  "answeringHost i = hostOf (\<lambda>f. Returned (JNumber (Whole i)))"



definition bothEasy :: Easy where
  "bothEasy = newEasy\<lparr>callbacks := [CURLOPT_WRITEFUNCTION \<mapsto> 5], onData := JFunction 6\<rparr>"

section \<open>Progress slots: the abort latch\<close>








section \<open>Errors raised by host callables\<close>

text \<open>
  The seven trampolines with a \<^verbatim>\<open>Nan::TryCatch\<close> route an exception of the callable by the
  owner of the handle and return the slot's failure value.
\<close>

lemma callInt32_Threw:
  "call H f argv = Threw e \<Longrightarrow>
   callInt32 H obj f argv fail msg =
     (True, \<lparr>ret = fail,
             thrown = (if isInsideMultiHandle obj then None else Some e),
             hostCalls = [(f, argv)],
             easy = (if isInsideMultiHandle obj then obj\<lparr>callbackError := Some e\<rparr> else obj)\<rparr>)"
  by (simp add: callInt32_def deferOrReThrow_def)

lemma CbChunkBgn_Threw:
  "callbacks obj CURLOPT_CHUNK_BGN_FUNCTION = Some f \<Longrightarrow>
   call H f [CreateV8ObjectFromCurlFileInfo ti, JNumber (Whole remains)] = Threw e \<Longrightarrow>
   CbChunkBgn H obj ti remains =
     Inr \<lparr>ret = CURL_CHUNK_BGN_FUNC_FAIL,
          thrown = (if isInsideMultiHandle obj then None else Some e),
          hostCalls = [(f, [CreateV8ObjectFromCurlFileInfo ti, JNumber (Whole remains)])],
          easy = (if isInsideMultiHandle obj then obj\<lparr>callbackError := Some e\<rparr> else obj)\<rparr>"
  by (simp add: CbChunkBgn_def callInt32_Threw)

lemma CbChunkEnd_Threw:
  "callbacks obj CURLOPT_CHUNK_END_FUNCTION = Some f \<Longrightarrow> call H f [] = Threw e \<Longrightarrow>
   CbChunkEnd H obj =
     Inr \<lparr>ret = CURL_CHUNK_END_FUNC_FAIL,
          thrown = (if isInsideMultiHandle obj then None else Some e),
          hostCalls = [(f, [])],
          easy = (if isInsideMultiHandle obj then obj\<lparr>callbackError := Some e\<rparr> else obj)\<rparr>"
  by (simp add: CbChunkEnd_def callInt32_Threw)

lemma CbDebug_Threw:
  "callbacks obj CURLOPT_DEBUGFUNCTION = Some f \<Longrightarrow>
   call H f [JNumber (Whole type), JBuffer (take (unat (ucast sz :: 32 word)) data)] = Threw e \<Longrightarrow>
   CbDebug H obj type data sz =
     Inr \<lparr>ret = 1,
          thrown = (if isInsideMultiHandle obj then None else Some e),
          hostCalls = [(f, [JNumber (Whole type),
                            JBuffer (take (unat (ucast sz :: 32 word)) data)])],
          easy = (if isInsideMultiHandle obj then obj\<lparr>callbackError := Some e\<rparr> else obj)\<rparr>"
  by (simp add: CbDebug_def callInt32_Threw)

lemma CbFnMatch_Threw:
  "callbacks obj CURLOPT_FNMATCH_FUNCTION = Some f \<Longrightarrow>
   call H f [JString pattern, JString str] = Threw e \<Longrightarrow>
   CbFnMatch H obj pattern str =
     Inr \<lparr>ret = CURL_FNMATCHFUNC_FAIL,
          thrown = (if isInsideMultiHandle obj then None else Some e),
          hostCalls = [(f, [JString pattern, JString str])],
          easy = (if isInsideMultiHandle obj then obj\<lparr>callbackError := Some e\<rparr> else obj)\<rparr>"
  by (simp add: CbFnMatch_def callInt32_Threw)

lemma CbProgress_Threw:
  "\<not> isCbProgressAlreadyAborted obj \<Longrightarrow>
   callbacks obj CURLOPT_PROGRESSFUNCTION = Some f \<Longrightarrow>
   call H f [JNumber a, JNumber b, JNumber c, JNumber d] = Threw e \<Longrightarrow>
   CbProgress H obj a b c d =
     Inr \<lparr>ret = 1,
          thrown = (if isInsideMultiHandle obj then None else Some e),
          hostCalls = [(f, [JNumber a, JNumber b, JNumber c, JNumber d])],
          easy = (if isInsideMultiHandle obj then obj\<lparr>callbackError := Some e\<rparr> else obj)\<rparr>"
  by (simp add: CbProgress_def callInt32_Threw markAborted_def)

lemma CbXferinfo_Threw:
  "\<not> isCbProgressAlreadyAborted obj \<Longrightarrow>
   callbacks obj CURLOPT_XFERINFOFUNCTION = Some f \<Longrightarrow>
   call H f [JNumber (Whole a), JNumber (Whole b), JNumber (Whole c), JNumber (Whole d)]
     = Threw e \<Longrightarrow>
   CbXferinfo H obj a b c d =
     Inr \<lparr>ret = 1,
          thrown = (if isInsideMultiHandle obj then None else Some e),
          hostCalls = [(f, [JNumber (Whole a), JNumber (Whole b), JNumber (Whole c),
                            JNumber (Whole d)])],
          easy = (if isInsideMultiHandle obj then obj\<lparr>callbackError := Some e\<rparr> else obj)\<rparr>"
  by (simp add: CbXferinfo_def callInt32_Threw markAborted_def)

lemma CbTrailer_Threw:
  "callbacks obj CURLOPT_TRAILERFUNCTION = Some f \<Longrightarrow> call H f [] = Threw e \<Longrightarrow>
   CbTrailer H obj headerList =
     Inr (\<lparr>ret = CURL_TRAILERFUNC_ABORT,
           thrown = (if isInsideMultiHandle obj then None else Some e),
           hostCalls = [(f, [])],
           easy = (if isInsideMultiHandle obj then obj\<lparr>callbackError := Some e\<rparr> else obj)\<rparr>,
          headerList)"
  by (simp add: CbTrailer_def deferOrReThrow_def)

text \<open>
  Claim C2 at the data-received slot. The handle is inside a multi handle and the callable
  registered for \<^verbatim>\<open>WRITEFUNCTION\<close> raises: \<^verbatim>\<open>OnData\<close> returns 0, the exception stays pending for the
  host caller, and \<open>callbackError\<close> stays empty.
\<close>

theorem onData_exception_not_deferred:
  "isInsideMultiHandle multiEasy
   \<and> OnData throwingHost multiEasy ''abc'' 1 3
     = Inr \<lparr>ret = 0, thrown = Some (JError ''boom''),
            hostCalls = [(5, [JBuffer ''abc'', JNumber (Whole 1), JNumber (Whole 3)])],
            easy = multiEasy\<rparr>
   \<and> callbackError multiEasy = None"
  by (simp add: multiEasy_def newEasy_def throwingHost_def hostOf_def OnData_def)

section \<open>Data-received slot\<close>

text \<open>
  Claim C10. With no \<^verbatim>\<open>WRITEFUNCTION\<close> entry in the registry and no \<open>onData\<close> property,
  \<^verbatim>\<open>OnData\<close> returns \<open>size * nmemb\<close> and calls nothing. With a \<^verbatim>\<open>WRITEFUNCTION\<close> entry, the
  callable called is that entry, whatever the \<open>onData\<close> property is.
\<close>

theorem onData_default_and_priority:
  "(callbacks obj CURLOPT_WRITEFUNCTION = None \<and> onData obj = JUndefined \<longrightarrow>
      OnData H obj data sz nmemb
        = Inr \<lparr>ret = sz * nmemb, thrown = None, hostCalls = [], easy = obj\<rparr>)
   \<and> (callbacks obj' CURLOPT_WRITEFUNCTION = Some f \<longrightarrow>
      (\<exists>r. OnData H obj' data sz nmemb = Inr r \<and> map fst (hostCalls r) = [f]))"
  by (auto simp: OnData_def Let_def split: call_result.splits)

theorem onData_default_and_priority_witness:
  "callbacks newEasy CURLOPT_WRITEFUNCTION = None \<and> onData newEasy = JUndefined
   \<and> OnData throwingHost newEasy ''abcdef'' 2 3
     = Inr \<lparr>ret = 2 * 3, thrown = None, hostCalls = [], easy = newEasy\<rparr>
   \<and> callbacks bothEasy CURLOPT_WRITEFUNCTION = Some 5 \<and> onData bothEasy = JFunction 6
   \<and> (\<exists>r. OnData (answeringHost 3) bothEasy ''abc'' 1 3 = Inr r \<and> map fst (hostCalls r) = [5])"
  using onData_default_and_priority [of newEasy throwingHost "''abcdef''" 2 3 bothEasy 5]
    onData_default_and_priority [of newEasy "answeringHost 3" "''abc''" 1 3 bothEasy 5]
  by (simp add: newEasy_def bothEasy_def)

section \<open>getInfo: conversion failures and null strings\<close>















text \<open>
  Claim C3, as the code has it. For a string info whose engine call succeeds, a null
  \<^verbatim>\<open>char*\<close> result is returned as the empty string, and any other result as that string; the
  data is never \<open>null\<close>.
\<close>

theorem getInfo_null_string_is_empty:
  assumes "isOpen obj" "infoIn C curlInfoNotImplemented infoVal = None"
    and "infoIn C curlInfoString infoVal = Some infoId"
    and "getinfo_string C (ch obj) infoId = (CURLE_OK, result)"
  shows "GetInfo C obj infoVal =
           Inr (Inr (infoObject 0 (JString (case result of None \<Rightarrow> [] | Some s \<Rightarrow> s))))"
  using assms
  by (simp add: GetInfo_def GetInfo_convert_def GetInfoTmpl_string_def GetInfoTmpl_def
      split: option.splits)

theorem getInfo_null_string_is_empty_witness:
  "isOpen newEasy \<and> infoIn (sampleCurl 0 0) curlInfoNotImplemented (JString ''EFFECTIVE_URL'') = None
   \<and> infoIn (sampleCurl 0 0) curlInfoString (JString ''EFFECTIVE_URL'') = Some (CURLINFO_OTHER 1048577)
   \<and> getinfo_string (sampleCurl 0 0) (ch newEasy) (CURLINFO_OTHER 1048577) = (CURLE_OK, None)
   \<and> GetInfo (sampleCurl 0 0) newEasy (JString ''EFFECTIVE_URL'') = Inr (Inr (infoObject 0 (JString [])))"
proof -
  have a: "isOpen newEasy" by (simp add: newEasy_def)
  have b: "infoIn (sampleCurl 0 0) curlInfoNotImplemented (JString ''EFFECTIVE_URL'') = None"
    by (simp add: sampleCurl_def)
  have c: "infoIn (sampleCurl 0 0) curlInfoString (JString ''EFFECTIVE_URL'') = Some (CURLINFO_OTHER 1048577)"
    by (simp add: sampleCurl_def)
  have d: "getinfo_string (sampleCurl 0 0) (ch newEasy) (CURLINFO_OTHER 1048577) = (CURLE_OK, None)"
    by (simp add: sampleCurl_def CURLE_OK_def)
  from getInfo_null_string_is_empty[OF a b c d] a b c d show ?thesis by simp
qed

text \<open>
  The claim as the spec words it fails: on success with a null pointer the data is the empty
  string, not \<open>null\<close>.
\<close>

theorem getInfo_null_string_counterexample:
  "GetInfo (sampleCurl 0 0) newEasy (JString ''EFFECTIVE_URL'')
     = Inr (Inr (JObject [(''code'', JNumber (Whole 0)), (''data'', JString [])]))
   \<and> GetInfo (sampleCurl 0 0) newEasy (JString ''EFFECTIVE_URL'')
     \<noteq> Inr (Inr (JObject [(''code'', JNumber (Whole 0)), (''data'', JNull)]))"
  by (simp add: GetInfo_def GetInfo_convert_def GetInfoTmpl_string_def GetInfoTmpl_def
      sampleCurl_def newEasy_def CURLE_OK_def infoObject_def)

section \<open>setOpt: the class of the option decides the branch\<close>

lemma optionClass_LinkedList:
  "optionClass C opt = Some (curlOptionLinkedList, i) \<Longrightarrow>
   optionIn C curlOptionNotImplemented opt = None \<and> optionIn C curlOptionSpecific opt = None
   \<and> optionIn C curlOptionLinkedList opt = Some i"
  by (simp add: optionClass_def split: option.splits)

lemma optionClass_String:
  "optionClass C opt = Some (curlOptionString, i) \<Longrightarrow>
   optionIn C curlOptionNotImplemented opt = None \<and> optionIn C curlOptionSpecific opt = None
   \<and> optionIn C curlOptionLinkedList opt = None \<and> optionIn C curlOptionString opt = Some i"
  by (simp add: optionClass_def split: option.splits)

lemma optionClass_Function:
  "optionClass C opt = Some (curlOptionFunction, i) \<Longrightarrow>
   optionIn C curlOptionNotImplemented opt = None \<and> optionIn C curlOptionSpecific opt = None
   \<and> optionIn C curlOptionLinkedList opt = None \<and> optionIn C curlOptionString opt = None
   \<and> optionIn C curlOptionInteger opt = None \<and> optionIn C curlOptionFunction opt = Some i"
  by (simp add: optionClass_def split: option.splits)

lemma SetOpt_LinkedList_class:
  "isOpen obj \<Longrightarrow> optionClass C opt = Some (curlOptionLinkedList, optionId) \<Longrightarrow>
   SetOpt C H obj opt val =
     (if optionId = CURLOPT_HTTPPOST then SetOpt_HTTPPOST C H obj val
      else SetOpt_LinkedList C H obj optionId val)"
  by (drule optionClass_LinkedList) (simp add: SetOpt_def)

lemma SetOpt_String_class:
  "isOpen obj \<Longrightarrow> optionClass C opt = Some (curlOptionString, optionId) \<Longrightarrow>
   SetOpt C H obj opt val = SetOpt_String C H obj optionId val"
  by (drule optionClass_String) (simp add: SetOpt_def)

lemma SetOpt_Function_class:
  "isOpen obj \<Longrightarrow> optionClass C opt = Some (curlOptionFunction, optionId) \<Longrightarrow>
   SetOpt C H obj opt val = SetOpt_Function C obj optionId val"
  by (drule optionClass_Function) (simp add: SetOpt_def)

section \<open>String-valued options\<close>

lemma SetOpt_String_not_string:
  "\<not> IsString val \<Longrightarrow>
   SetOpt_String C H obj optionId val = (Inl (JTypeError ''Option value must be a string.''), obj)"
  by (simp add: SetOpt_String_def)

text \<open>
  Claim C4 at \<open>null\<close>. For the string option \<open>URL\<close> on an open handle, \<^verbatim>\<open>SetOpt\<close> with the value
  \<open>null\<close> throws the type error of the guard \<^verbatim>\<open>!value->IsString()\<close> and leaves the handle as it
  is: no engine call is made. The branch for \<open>isNull\<close> that follows the guard is never reached.
\<close>

theorem setOpt_string_null_rejected:
  "SetOpt (sampleCurl 0 0) throwingHost newEasy (JString ''URL'') JNull
     = (Inl (JTypeError ''Option value must be a string.''), newEasy)"
  by (simp add: SetOpt_def SetOpt_String_def sampleCurl_def newEasy_def)

section \<open>List-valued options\<close>

lemma slist_build:
  "foldl (\<lambda>sl v. curl_slist_append sl (Utf8String H v)) acc array
     = acc @ map (\<lambda>v. c_str (Utf8String H v)) array"
  by (induction array arbitrary: acc) (simp_all add: curl_slist_append_def)

lemma slist_of_strings:
  "foldl (\<lambda>sl v. curl_slist_append sl (Utf8String H v)) [] (map JString xs) = map c_str xs"
  unfolding slist_build by (induction xs) simp_all

lemma SetOpt_LinkedList_strings:
  "SetOpt_LinkedList C H obj optionId (JArray (map JString xs)) =
     (let slist = map c_str xs;
          obj0 = (if slist = [] then obj else obj\<lparr>slistHeap := slistHeap obj @ [slist]\<rparr>);
          (setOptRetCode, obj1) = easy_setopt C obj0 optionId (ArgSList slist)
      in (Inr setOptRetCode,
          if setOptRetCode = CURLE_OK
          then obj1\<lparr>toFree_slist := toFree_slist obj1 @ [slist]\<rparr>
          else obj1))"
  unfolding SetOpt_LinkedList_def by (simp only: slist_of_strings IsNull.simps js_value.case if_False)

lemma SetOpt_LinkedList_code:
  "fst (SetOpt_LinkedList C H obj optionId (JArray (map JString xs)))
     = Inr (curl_easy_setopt C (ch obj) optionId (ArgSList (map c_str xs)))"
  unfolding SetOpt_LinkedList_strings by (simp add: easy_setopt_def Let_def)

lemma SetOpt_LinkedList_call:
  "ch (snd (SetOpt_LinkedList C H obj optionId (JArray (map JString xs))))
     = ch obj @ [(optionId, ArgSList (map c_str xs),
                  curl_easy_setopt C (ch obj) optionId (ArgSList (map c_str xs)))]"
  unfolding SetOpt_LinkedList_strings by (simp add: easy_setopt_def Let_def)

lemma SetOpt_LinkedList_store:
  "toFree_slist (snd (SetOpt_LinkedList C H obj optionId (JArray (map JString xs))))
     = (if curl_easy_setopt C (ch obj) optionId (ArgSList (map c_str xs)) = CURLE_OK
        then toFree_slist obj @ [map c_str xs] else toFree_slist obj)"
  unfolding SetOpt_LinkedList_strings by (simp add: easy_setopt_def Let_def)

lemma SetOpt_LinkedList_heap:
  "slistHeap (snd (SetOpt_LinkedList C H obj optionId (JArray (map JString xs))))
     = (if xs = [] then slistHeap obj else slistHeap obj @ [map c_str xs])"
  unfolding SetOpt_LinkedList_strings by (simp add: easy_setopt_def Let_def)

text \<open>
  What holds of a list-valued option set with \<open>N\<close> strings: the engine's option-set call gets
  a list of \<open>N\<close> nodes in the order of the strings, and the list is pushed on \<^verbatim>\<open>toFree->slist\<close>
  exactly when that call returns \<^verbatim>\<open>CURLE_OK\<close>.
\<close>

lemma setOpt_list_install:
  assumes "isOpen obj" "optionClass C opt = Some (curlOptionLinkedList, optionId)"
    and "optionId \<noteq> CURLOPT_HTTPPOST"
  shows "fst (SetOpt C H obj opt (JArray (map JString xs)))
           = Inr (curl_easy_setopt C (ch obj) optionId (ArgSList (map c_str xs)))"
    and "ch (snd (SetOpt C H obj opt (JArray (map JString xs))))
           = ch obj @ [(optionId, ArgSList (map c_str xs),
                        curl_easy_setopt C (ch obj) optionId (ArgSList (map c_str xs)))]"
    and "length (map c_str xs) = length xs"
    and "toFree_slist (snd (SetOpt C H obj opt (JArray (map JString xs))))
           = (if curl_easy_setopt C (ch obj) optionId (ArgSList (map c_str xs)) = CURLE_OK
              then toFree_slist obj @ [map c_str xs] else toFree_slist obj)"
  using assms(3)
  by (simp_all add: SetOpt_LinkedList_class[OF assms(1,2)] SetOpt_LinkedList_code
      SetOpt_LinkedList_call SetOpt_LinkedList_store)

text \<open>
  A list that the engine refused is in no vector of \<^verbatim>\<open>ToFree\<close>, so \<^verbatim>\<open>~ToFree\<close> does not free it:
  it stays allocated.
\<close>

lemma setOpt_list_refused_stays_allocated:
  assumes "isOpen obj" "optionClass C opt = Some (curlOptionLinkedList, optionId)"
    and "optionId \<noteq> CURLOPT_HTTPPOST" "xs \<noteq> []"
    and "curl_easy_setopt C (ch obj) optionId (ArgSList (map c_str xs)) \<noteq> CURLE_OK"
  shows "slistHeap (snd (SetOpt C H obj opt (JArray (map JString xs))))
           = slistHeap obj @ [map c_str xs]"
    and "toFree_slist (snd (SetOpt C H obj opt (JArray (map JString xs)))) = toFree_slist obj"
  using assms(3,4,5)
  by (simp_all add: SetOpt_LinkedList_class[OF assms(1,2)] SetOpt_LinkedList_heap
      SetOpt_LinkedList_store)

text \<open>
  Claim C5 at a refused install. The engine answers the option-set call for \<open>HTTPHEADER\<close> with
  the status 48. The list of one node was passed to the engine, is not in \<^verbatim>\<open>toFree->slist\<close>, and is
  still allocated after \<^verbatim>\<open>~ToFree\<close> has run: it has leaked.
\<close>

theorem setOpt_list_failed_install_leaks:
  "fst (SetOpt (sampleCurl 48 0) throwingHost newEasy (JString ''HTTPHEADER'')
          (JArray [JString ''A: b''])) = Inr 48
   \<and> ch (snd (SetOpt (sampleCurl 48 0) throwingHost newEasy (JString ''HTTPHEADER'')
          (JArray [JString ''A: b''])))
       = [(CURLOPT_OTHER 10023, ArgSList [''A: b''], 48)]
   \<and> toFree_slist (snd (SetOpt (sampleCurl 48 0) throwingHost newEasy (JString ''HTTPHEADER'')
          (JArray [JString ''A: b'']))) = []
   \<and> slistHeap (snd (SetOpt (sampleCurl 48 0) throwingHost newEasy (JString ''HTTPHEADER'')
          (JArray [JString ''A: b'']))) = [[''A: b'']]
   \<and> slistHeap (ToFree_destroy (snd (SetOpt (sampleCurl 48 0) throwingHost newEasy
          (JString ''HTTPHEADER'') (JArray [JString ''A: b''])))) = [[''A: b'']]"
  by (simp add: SetOpt_def SetOpt_LinkedList_def sampleCurl_def newEasy_def easy_setopt_def
      curl_slist_append_def c_str_def CURLE_OK_def ToFree_destroy_def Let_def
      curl_slist_free_all_def)

section \<open>Callback-valued options\<close>

lemma installed_snoc_ok: "installed (calls @ [(opt, arg, CURLE_OK)]) opt = Some arg"
  by (simp add: installed_def)


text \<open>The guard of the function branch passes for a callable and for null.\<close>

lemma SetOpt_Function_own_data:
  assumes "val = JFunction f \<or> val = JNull"
    and "(optionId, dataOpt, tr) \<in>
           {(CURLOPT_DEBUGFUNCTION, CURLOPT_DEBUGDATA, TrCbDebug),
            (CURLOPT_FNMATCH_FUNCTION, CURLOPT_FNMATCH_DATA, TrCbFnMatch),
            (CURLOPT_PROGRESSFUNCTION, CURLOPT_PROGRESSDATA, TrCbProgress),
            (CURLOPT_TRAILERFUNCTION, CURLOPT_TRAILERDATA, TrCbTrailer),
            (CURLOPT_XFERINFOFUNCTION, CURLOPT_XFERINFODATA, TrCbXferinfo)}"
  shows "SetOpt_Function C obj optionId val =
     (Inr (fst (setCallback C obj val optionId dataOpt tr)),
      snd (setCallback C obj val optionId dataOpt tr))"
  using assms unfolding SetOpt_Function_def
  by (elim disjE insertE emptyE) (simp_all add: split_beta)

lemma SetOpt_Function_chunk:
  assumes "val = JFunction f \<or> val = JNull"
    and "(optionId, other, tr) \<in>
           {(CURLOPT_CHUNK_BGN_FUNCTION, CURLOPT_CHUNK_END_FUNCTION, TrCbChunkBgn),
            (CURLOPT_CHUNK_END_FUNCTION, CURLOPT_CHUNK_BGN_FUNCTION, TrCbChunkEnd)}"
  shows "SetOpt_Function C obj optionId val =
     (Inr (fst (setChunkCallback C obj val optionId other tr)),
      snd (setChunkCallback C obj val optionId other tr))"
  using assms unfolding SetOpt_Function_def
  by (elim disjE insertE emptyE) (simp_all add: split_beta)

lemma setCallback_registry:
  "val = JFunction f \<or> val = JNull \<Longrightarrow>
   callbacks (snd (setCallback C obj val fnOpt dataOpt tr)) fnOpt
     = (case val of JFunction g \<Rightarrow> Some g | _ \<Rightarrow> None)"
  by (elim disjE) (simp_all add: setCallback_def easy_setopt_def Let_def)

lemma setCallback_calls:
  "val = JFunction f \<or> val = JNull \<Longrightarrow>
   \<exists>calls. ch (snd (setCallback C obj val fnOpt dataOpt tr))
     = calls @ [(fnOpt, (case val of JFunction g \<Rightarrow> ArgFn tr | _ \<Rightarrow> ArgNull),
                 fst (setCallback C obj val fnOpt dataOpt tr))]"
  by (elim disjE) (simp_all add: setCallback_def easy_setopt_def Let_def)

lemma setChunkCallback_registry:
  "val = JFunction f \<or> val = JNull \<Longrightarrow>
   callbacks (snd (setChunkCallback C obj val fnOpt other tr)) fnOpt
     = (case val of JFunction g \<Rightarrow> Some g | _ \<Rightarrow> None)"
  by (elim disjE) (simp_all add: setChunkCallback_def easy_setopt_def Let_def)

lemma setChunkCallback_calls:
  "val = JFunction f \<or> val = JNull \<Longrightarrow>
   \<exists>calls. ch (snd (setChunkCallback C obj val fnOpt other tr))
     = calls @ [(fnOpt, (case val of JFunction g \<Rightarrow> ArgFn tr | _ \<Rightarrow> ArgNull),
                 fst (setChunkCallback C obj val fnOpt other tr))]"
  by (elim disjE) (simp_all add: setChunkCallback_def easy_setopt_def Let_def)

lemma slotTrampoline_cases:
  assumes "slotTrampoline optionId = Some (dataOpt, tr)"
  obtains (own) "(optionId, dataOpt, tr) \<in>
           {(CURLOPT_DEBUGFUNCTION, CURLOPT_DEBUGDATA, TrCbDebug),
            (CURLOPT_FNMATCH_FUNCTION, CURLOPT_FNMATCH_DATA, TrCbFnMatch),
            (CURLOPT_PROGRESSFUNCTION, CURLOPT_PROGRESSDATA, TrCbProgress),
            (CURLOPT_TRAILERFUNCTION, CURLOPT_TRAILERDATA, TrCbTrailer),
            (CURLOPT_XFERINFOFUNCTION, CURLOPT_XFERINFODATA, TrCbXferinfo)}"
  | (chunk) other where "(optionId, other, tr) \<in>
           {(CURLOPT_CHUNK_BGN_FUNCTION, CURLOPT_CHUNK_END_FUNCTION, TrCbChunkBgn),
            (CURLOPT_CHUNK_END_FUNCTION, CURLOPT_CHUNK_BGN_FUNCTION, TrCbChunkEnd)}"
  using assms by (cases optionId) simp_all

lemma SetOpt_Function_slot:
  assumes "slotTrampoline optionId = Some (dataOpt, tr)" "val = JFunction f \<or> val = JNull"
  shows "callbacks (snd (SetOpt_Function C obj optionId val)) optionId
           = (case val of JFunction g \<Rightarrow> Some g | _ \<Rightarrow> None)
   \<and> (\<exists>rc calls. fst (SetOpt_Function C obj optionId val) = Inr rc
        \<and> ch (snd (SetOpt_Function C obj optionId val))
            = calls @ [(optionId, (case val of JFunction g \<Rightarrow> ArgFn tr | _ \<Rightarrow> ArgNull), rc)])"
  using assms(1)
proof (cases rule: slotTrampoline_cases)
  case own
  show ?thesis
    unfolding SetOpt_Function_own_data[OF assms(2) own]
    using setCallback_registry[OF assms(2)] setCallback_calls[OF assms(2)] by simp
next
  case (chunk other)
  show ?thesis
    unfolding SetOpt_Function_chunk[OF assms(2) chunk]
    using setChunkCallback_registry[OF assms(2)] setChunkCallback_calls[OF assms(2)] by simp
qed

lemma SetOpt_Function_write:
  "val = JFunction f \<or> val = JNull \<Longrightarrow>
   SetOpt_Function C obj CURLOPT_WRITEFUNCTION val =
     (Inr CURLE_OK,
      obj\<lparr>callbacks := (callbacks obj)
        (CURLOPT_WRITEFUNCTION := (case val of JFunction g \<Rightarrow> Some g | _ \<Rightarrow> None))\<rparr>)"
  unfolding SetOpt_Function_def by (elim disjE) simp_all

lemma SetOpt_Function_no_case:
  "val = JFunction f \<or> val = JNull \<Longrightarrow> slotTrampoline optionId = None \<Longrightarrow>
   optionId \<noteq> CURLOPT_WRITEFUNCTION \<Longrightarrow>
   SetOpt_Function C obj optionId val = (Inr CURLE_UNKNOWN_OPTION, obj)"
  unfolding SetOpt_Function_def by (cases optionId) auto

text \<open>
  Claim C7, as the code has it. For a callback-valued option set to a callable or to \<open>null\<close> on
  an open handle: for each slot with an engine-side function pointer, the registry entry is
  present after the call exactly when the value is a callable, whatever the engine answers;
  the status returned is that of the engine's call on the function-pointer option, made last,
  with the trampoline for a callable and the null pointer for \<open>null\<close>; so when the status is
  \<^verbatim>\<open>CURLE_OK\<close> the engine holds that pointer and agrees with the registry. For \<^verbatim>\<open>WRITEFUNCTION\<close>
  only the registry changes and the status is \<^verbatim>\<open>CURLE_OK\<close>. For an identifier without a case
  nothing changes and the status is \<^verbatim>\<open>CURLE_UNKNOWN_OPTION\<close>.
\<close>

theorem setOpt_callback_registry:
  assumes "isOpen obj" "optionClass C opt = Some (curlOptionFunction, optionId)"
    and "val = JFunction f \<or> val = JNull"
  shows "(\<forall>dataOpt tr. slotTrampoline optionId = Some (dataOpt, tr) \<longrightarrow>
            callbacks (snd (SetOpt C H obj opt val)) optionId
              = (case val of JFunction g \<Rightarrow> Some g | _ \<Rightarrow> None)
          \<and> (\<exists>rc calls. fst (SetOpt C H obj opt val) = Inr rc
               \<and> ch (snd (SetOpt C H obj opt val))
                   = calls @ [(optionId, (case val of JFunction g \<Rightarrow> ArgFn tr | _ \<Rightarrow> ArgNull), rc)]
               \<and> (rc = CURLE_OK \<longrightarrow>
                    installed (ch (snd (SetOpt C H obj opt val))) optionId
                      = Some (case val of JFunction g \<Rightarrow> ArgFn tr | _ \<Rightarrow> ArgNull))))
       \<and> (optionId = CURLOPT_WRITEFUNCTION \<longrightarrow>
            SetOpt C H obj opt val =
              (Inr CURLE_OK,
               obj\<lparr>callbacks := (callbacks obj)
                 (CURLOPT_WRITEFUNCTION := (case val of JFunction g \<Rightarrow> Some g | _ \<Rightarrow> None))\<rparr>))
       \<and> (slotTrampoline optionId = None \<and> optionId \<noteq> CURLOPT_WRITEFUNCTION \<longrightarrow>
            SetOpt C H obj opt val = (Inr CURLE_UNKNOWN_OPTION, obj))"
proof -
  note eq = SetOpt_Function_class[OF assms(1,2)]
  have a: "callbacks (snd (SetOpt C H obj opt val)) optionId
              = (case val of JFunction g \<Rightarrow> Some g | _ \<Rightarrow> None)
          \<and> (\<exists>rc calls. fst (SetOpt C H obj opt val) = Inr rc
               \<and> ch (snd (SetOpt C H obj opt val))
                   = calls @ [(optionId, (case val of JFunction g \<Rightarrow> ArgFn tr | _ \<Rightarrow> ArgNull), rc)]
               \<and> (rc = CURLE_OK \<longrightarrow>
                    installed (ch (snd (SetOpt C H obj opt val))) optionId
                      = Some (case val of JFunction g \<Rightarrow> ArgFn tr | _ \<Rightarrow> ArgNull)))"
    if st: "slotTrampoline optionId = Some (dataOpt, tr)" for dataOpt tr
  proof -
    from SetOpt_Function_slot[OF st assms(3), of C obj] obtain rc calls where
      r: "callbacks (snd (SetOpt_Function C obj optionId val)) optionId
            = (case val of JFunction g \<Rightarrow> Some g | _ \<Rightarrow> None)"
         "fst (SetOpt_Function C obj optionId val) = Inr rc"
         "ch (snd (SetOpt_Function C obj optionId val))
            = calls @ [(optionId, (case val of JFunction g \<Rightarrow> ArgFn tr | _ \<Rightarrow> ArgNull), rc)]"
      by blast
    have "rc = CURLE_OK \<Longrightarrow>
          installed (ch (snd (SetOpt_Function C obj optionId val))) optionId
            = Some (case val of JFunction g \<Rightarrow> ArgFn tr | _ \<Rightarrow> ArgNull)"
      unfolding r(3) by (simp add: installed_snoc_ok)
    with r show ?thesis unfolding eq by blast
  qed
  have b: "SetOpt C H obj opt val =
              (Inr CURLE_OK,
               obj\<lparr>callbacks := (callbacks obj)
                 (CURLOPT_WRITEFUNCTION := (case val of JFunction g \<Rightarrow> Some g | _ \<Rightarrow> None))\<rparr>)"
    if "optionId = CURLOPT_WRITEFUNCTION"
    unfolding eq that by (rule SetOpt_Function_write[OF assms(3)])
  have c: "SetOpt C H obj opt val = (Inr CURLE_UNKNOWN_OPTION, obj)"
    if "slotTrampoline optionId = None" "optionId \<noteq> CURLOPT_WRITEFUNCTION"
    unfolding eq by (rule SetOpt_Function_no_case[OF assms(3) that])
  from a b c show ?thesis by blast
qed

theorem setOpt_callback_registry_witness:
  "isOpen newEasy
   \<and> optionClass (sampleCurl 0 0) (JString ''DEBUGFUNCTION'')
       = Some (curlOptionFunction, CURLOPT_DEBUGFUNCTION)
   \<and> slotTrampoline CURLOPT_DEBUGFUNCTION = Some (CURLOPT_DEBUGDATA, TrCbDebug)
   \<and> callbacks (snd (SetOpt (sampleCurl 0 0) throwingHost newEasy (JString ''DEBUGFUNCTION'')
         (JFunction 1))) CURLOPT_DEBUGFUNCTION = Some 1
   \<and> fst (SetOpt (sampleCurl 0 0) throwingHost newEasy (JString ''DEBUGFUNCTION'')
         (JFunction 1)) = Inr CURLE_OK
   \<and> installed (ch (snd (SetOpt (sampleCurl 0 0) throwingHost newEasy (JString ''DEBUGFUNCTION'')
         (JFunction 1)))) CURLOPT_DEBUGFUNCTION = Some (ArgFn TrCbDebug)
   \<and> optionClass (sampleCurl 0 0) (JString ''WRITEFUNCTION'')
       = Some (curlOptionFunction, CURLOPT_WRITEFUNCTION)
   \<and> fst (SetOpt (sampleCurl 0 0) throwingHost bothEasy (JString ''WRITEFUNCTION'') JNull)
       = Inr CURLE_OK
   \<and> callbacks (snd (SetOpt (sampleCurl 0 0) throwingHost bothEasy (JString ''WRITEFUNCTION'')
         JNull)) CURLOPT_WRITEFUNCTION = None
   \<and> optionClass (sampleCurl 0 0) (JString ''READFUNCTION'')
       = Some (curlOptionFunction, CURLOPT_OTHER 20012)
   \<and> slotTrampoline (CURLOPT_OTHER 20012) = None
   \<and> SetOpt (sampleCurl 0 0) throwingHost newEasy (JString ''READFUNCTION'') (JFunction 1)
       = (Inr CURLE_UNKNOWN_OPTION, newEasy)"
proof -
  have o: "isOpen newEasy" "isOpen bothEasy" by (simp_all add: newEasy_def bothEasy_def)
  have c1: "optionClass (sampleCurl 0 0) (JString ''DEBUGFUNCTION'')
       = Some (curlOptionFunction, CURLOPT_DEBUGFUNCTION)"
    and c2: "optionClass (sampleCurl 0 0) (JString ''WRITEFUNCTION'')
       = Some (curlOptionFunction, CURLOPT_WRITEFUNCTION)"
    and c3: "optionClass (sampleCurl 0 0) (JString ''READFUNCTION'')
       = Some (curlOptionFunction, CURLOPT_OTHER 20012)"
    by (simp_all add: optionClass_def sampleCurl_def)
  have v1: "JFunction 1 = JFunction 1 \<or> JFunction 1 = JNull"
    and v2: "JNull = JFunction 0 \<or> JNull = JNull" by simp_all
  have g: "?thesis"
    by (simp add: SetOpt_def SetOpt_Function_def setCallback_def easy_setopt_def sampleCurl_def
        newEasy_def bothEasy_def optionClass_def installed_def CURLE_OK_def
        CURLE_UNKNOWN_OPTION_def Let_def)
  from setOpt_callback_registry[OF o(1) c1 v1, of throwingHost]
    setOpt_callback_registry[OF o(2) c2 v2, of throwingHost]
    setOpt_callback_registry[OF o(1) c3 v1, of throwingHost] g
  show ?thesis by blast
qed

text \<open>
  The claim as the spec words it fails in both directions. When the engine refuses the
  function pointer of \<^verbatim>\<open>CHUNK_BGN_FUNCTION\<close> the registry entry is present all the same. And on a
  handle as the constructor leaves it, setting \<^verbatim>\<open>WRITEFUNCTION\<close> to \<open>null\<close> leaves no registry
  entry while the engine still holds the adapter's write function.
\<close>

theorem setOpt_callback_registry_counterexample:
  "fst (SetOpt (sampleCurl 48 0) throwingHost newEasy (JString ''CHUNK_BGN_FUNCTION'')
         (JFunction 1)) = Inr CURLE_UNKNOWN_OPTION
   \<and> callbacks (snd (SetOpt (sampleCurl 48 0) throwingHost newEasy
         (JString ''CHUNK_BGN_FUNCTION'') (JFunction 1))) CURLOPT_CHUNK_BGN_FUNCTION = Some 1
   \<and> installed (ch (snd (SetOpt (sampleCurl 48 0) throwingHost newEasy
         (JString ''CHUNK_BGN_FUNCTION'') (JFunction 1)))) CURLOPT_CHUNK_BGN_FUNCTION = None
   \<and> fst (SetOpt (sampleCurl 0 0) throwingHost
         (ResetRequiredHandleOptions (sampleCurl 0 0) newEasy) (JString ''WRITEFUNCTION'') JNull)
       = Inr CURLE_OK
   \<and> callbacks (snd (SetOpt (sampleCurl 0 0) throwingHost
         (ResetRequiredHandleOptions (sampleCurl 0 0) newEasy) (JString ''WRITEFUNCTION'') JNull))
         CURLOPT_WRITEFUNCTION = None
   \<and> installed (ch (snd (SetOpt (sampleCurl 0 0) throwingHost
         (ResetRequiredHandleOptions (sampleCurl 0 0) newEasy) (JString ''WRITEFUNCTION'') JNull)))
         CURLOPT_WRITEFUNCTION = Some (ArgFn TrWriteFunction)"
  by (simp add: SetOpt_def SetOpt_Function_def setChunkCallback_def easy_setopt_def
      sampleCurl_def newEasy_def installed_def CURLE_OK_def CURLE_UNKNOWN_OPTION_def Let_def
      ResetRequiredHandleOptions_def)

section \<open>The chunk callbacks and their shared user-data slot\<close>






section \<open>The structured multipart option\<close>


















end
